theory Spec2Isabelle
  imports Complex_Main
begin

section \<open>The plant identification relay: \<open>POST /identify\<close>\<close>

text \<open>
  The repository is a single Express application. The file \<open>src/server.js\<close> holds the
  handler in several near-identical revisions; the one embedded here is the revision with
  the file filter that admits mislabelled binary uploads and with the three size-indexed
  placeholder records (lines 193 to 564 of \<open>src/server.js\<close>). Line numbers in the
  comments below refer to that file. The other revisions, among them
  \<open>src/unnamed/part_000\<close>, have the same error middleware, a file filter without the
  binary accommodation, and a single placeholder record or none.

  The request pipeline is \<open>upload.single('image')\<close> (the multer middleware configured
  with the repository's \<open>fileFilter\<close> and \<open>limits.fileSize\<close>), then the asynchronous
  handler, with the error-handling middleware registered last. The outbound call
  \<open>axios.post\<close> is the only effect; it is a parameter of the model, and the handler
  returns the list of outbound requests it issued next to its response.
\<close>

subsection \<open>Strings and JSON values\<close>

text \<open>
  Strings are byte lists. The literals of the source that are not ASCII are written as
  their UTF-8 bytes.
\<close>

definition utf8 :: "nat list \<Rightarrow> string" where
  "utf8 = map char_of"

text \<open>
  \<open>String.prototype.toLowerCase\<close>, on the ASCII letters. The only place the source
  lower-cases a string is the extension that selects a case of a \<open>switch\<close> over ASCII
  words, and an extension holding a character outside ASCII does not lower-case to any of
  those words, so leaving the other bytes unchanged selects the same case.
\<close>

definition toLowerCase_char :: "char \<Rightarrow> char" where
  "toLowerCase_char c =
     (case map_of (zip ''ABCDEFGHIJKLMNOPQRSTUVWXYZ'' ''abcdefghijklmnopqrstuvwxyz'') c of
        None \<Rightarrow> c
      | Some l \<Rightarrow> l)"

definition toLowerCase :: "string \<Rightarrow> string" where
  "toLowerCase s = map toLowerCase_char s"

text \<open>\<open>s.startsWith(p)\<close> and the anchored suffix test behind a regular expression \<open>/...$/\<close>.\<close>

definition startsWith :: "string \<Rightarrow> string \<Rightarrow> bool" where
  "startsWith s p = (take (length p) s = p)"

definition endsWith :: "string \<Rightarrow> string \<Rightarrow> bool" where
  "endsWith s p = (length p \<le> length s \<and> drop (length s - length p) s = p)"

text \<open>\<open>s.split('.')\<close>: the pieces between the separators; never the empty array.\<close>

fun split :: "char \<Rightarrow> string \<Rightarrow> string list" where
  "split sep [] = [[]]"
| "split sep (c # cs) =
     (if c = sep then [] # split sep cs
      else (case split sep cs of [] \<Rightarrow> [[c]] | p # ps \<Rightarrow> (c # p) # ps))"

text \<open>\<open>Array.prototype.pop\<close> on the result of \<open>split\<close>: its last element.\<close>

definition pop :: "string list \<Rightarrow> string" where
  "pop pieces = (case rev pieces of [] \<Rightarrow> [] | p # _ \<Rightarrow> p)"


text \<open>
  A JavaScript number as \<open>JSON.parse\<close> can produce it: a finite value or, for a literal
  beyond the range of a double, an infinity.
\<close>

datatype js_number =
    Finite real
  | PosInfinity
  | NegInfinity

text \<open>
  The values the handler reads and builds. \<open>Undefined\<close> is what reading a property gives
  when the object has no such property; an object keeps its keys in order.
\<close>

datatype jsvalue =
    Undefined
  | JNull
  | JBool bool
  | JNum js_number
  | JStr string
  | JArr "jsvalue list"
  | JObj "(string \<times> jsvalue) list"

text \<open>The test \<open>v && ...\<close> or \<open>v || ...\<close> makes of a value.\<close>

fun truthy :: "jsvalue \<Rightarrow> bool" where
  "truthy Undefined = False"
| "truthy JNull = False"
| "truthy (JBool b) = b"
| "truthy (JNum (Finite r)) = (r \<noteq> 0)"
| "truthy (JNum PosInfinity) = True"
| "truthy (JNum NegInfinity) = True"
| "truthy (JStr s) = (s \<noteq> [])"
| "truthy (JArr xs) = True"
| "truthy (JObj kvs) = True"

text \<open>
  What the client parses from \<open>JSON.stringify(v)\<close>, the serialisation \<open>res.json\<close> sends: a
  key whose value is \<open>undefined\<close> is left out of its object, \<open>undefined\<close> in an array and a
  number that is not finite become \<open>null\<close>.
\<close>

definition null_if_undefined :: "jsvalue \<Rightarrow> jsvalue" where
  "null_if_undefined v = (if v = Undefined then JNull else v)"

definition defined_property :: "string \<times> jsvalue \<Rightarrow> bool" where
  "defined_property kv = (snd kv \<noteq> Undefined)"

primrec stringify :: "jsvalue \<Rightarrow> jsvalue" where
  "stringify Undefined = Undefined"
| "stringify JNull = JNull"
| "stringify (JBool b) = JBool b"
| "stringify (JNum n) =
     (case n of Finite r \<Rightarrow> JNum (Finite r) | PosInfinity \<Rightarrow> JNull | NegInfinity \<Rightarrow> JNull)"
| "stringify (JStr s) = JStr s"
| "stringify (JArr xs) = JArr (map null_if_undefined (map stringify xs))"
| "stringify (JObj kvs) = JObj (filter defined_property (map (map_prod id stringify) kvs))"

text \<open>An HTTP response: the status code and the JSON body as the client parses it.\<close>

record response =
  status :: nat
  body :: jsvalue

text \<open>\<open>res.status(code).json(obj)\<close>; \<open>res.json(obj)\<close> alone answers with status 200.\<close>

definition status_json :: "nat \<Rightarrow> jsvalue \<Rightarrow> response" where
  "status_json code obj = \<lparr>status = code, body = stringify obj\<rparr>"

definition json :: "jsvalue \<Rightarrow> response" where
  "json obj = status_json 200 obj"

text \<open>Reading a key of a JSON object; \<open>None\<close> when the key is not there.\<close>

definition field :: "jsvalue \<Rightarrow> string \<Rightarrow> jsvalue option" where
  "field v k = (case v of JObj kvs \<Rightarrow> map_of kvs k | _ \<Rightarrow> None)"

subsection \<open>String literals of the source\<close>

text \<open>Line 233: the message of the error raised by the file filter ("only images are allowed").\<close>

definition MSG_ONLY_IMAGES :: string where
  "MSG_ONLY_IMAGES = utf8
    [0xD0, 0xA2, 0xD0, 0xBE, 0xD0, 0xBB, 0xD1, 0x8C, 0xD0, 0xBA, 0xD0, 0xBE, 0x20, 0xD0,
     0xB8, 0xD0, 0xB7, 0xD0, 0xBE, 0xD0, 0xB1, 0xD1, 0x80, 0xD0, 0xB0, 0xD0, 0xB6, 0xD0,
     0xB5, 0xD0, 0xBD, 0xD0, 0xB8, 0xD1, 0x8F, 0x20, 0xD1, 0x80, 0xD0, 0xB0, 0xD0, 0xB7,
     0xD1, 0x80, 0xD0, 0xB5, 0xD1, 0x88, 0xD0, 0xB5, 0xD0, 0xBD, 0xD1, 0x8B]"

text \<open>Line 265: the error text of the missing-file response ("image not found").\<close>

definition MSG_IMAGE_NOT_FOUND :: string where
  "MSG_IMAGE_NOT_FOUND = utf8
    [0xD0, 0x98, 0xD0, 0xB7, 0xD0, 0xBE, 0xD0, 0xB1, 0xD1, 0x80, 0xD0, 0xB0, 0xD0, 0xB6,
     0xD0, 0xB5, 0xD0, 0xBD, 0xD0, 0xB8, 0xD0, 0xB5, 0x20, 0xD0, 0xBD, 0xD0, 0xB5, 0x20,
     0xD0, 0xBD, 0xD0, 0xB0, 0xD0, 0xB9, 0xD0, 0xB4, 0xD0, 0xB5, 0xD0, 0xBD, 0xD0, 0xBE]"

text \<open>Line 280: the error text of the missing-credential response ("PlantNet API key is not configured").\<close>

definition MSG_API_KEY_NOT_CONFIGURED :: string where
  "MSG_API_KEY_NOT_CONFIGURED = utf8
    [0x50, 0x6C, 0x61, 0x6E, 0x74, 0x4E, 0x65, 0x74, 0x20, 0x41, 0x50, 0x49, 0x20, 0xD0,
     0xBA, 0xD0, 0xBB, 0xD1, 0x8E, 0xD1, 0x87, 0x20, 0xD0, 0xBD, 0xD0, 0xB5, 0x20, 0xD0,
     0xBD, 0xD0, 0xB0, 0xD1, 0x81, 0xD1, 0x82, 0xD1, 0x80, 0xD0, 0xBE, 0xD0, 0xB5, 0xD0,
     0xBD]"

text \<open>Line 353: the description used when the species has none ("description unavailable").\<close>

definition DESCRIPTION_UNAVAILABLE :: string where
  "DESCRIPTION_UNAVAILABLE = utf8
    [0xD0, 0x9E, 0xD0, 0xBF, 0xD0, 0xB8, 0xD1, 0x81, 0xD0, 0xB0, 0xD0, 0xBD, 0xD0, 0xB8,
     0xD0, 0xB5, 0x20, 0xD0, 0xBD, 0xD0, 0xB5, 0xD0, 0xB4, 0xD0, 0xBE, 0xD1, 0x81, 0xD1,
     0x82, 0xD1, 0x83, 0xD0, 0xBF, 0xD0, 0xBD, 0xD0, 0xBE]"

text \<open>Line 354: the fixed advisory text of the field benefits.\<close>

definition BENEFITS_ADVISORY :: string where
  "BENEFITS_ADVISORY = utf8
    [0xD0, 0x98, 0xD0, 0xBD, 0xD1, 0x84, 0xD0, 0xBE, 0xD1, 0x80, 0xD0, 0xBC, 0xD0, 0xB0,
     0xD1, 0x86, 0xD0, 0xB8, 0xD1, 0x8F, 0x20, 0xD0, 0xBE, 0x20, 0xD0, 0xBF, 0xD0, 0xBE,
     0xD0, 0xBB, 0xD1, 0x8C, 0xD0, 0xB7, 0xD0, 0xB5, 0x20, 0xD1, 0x80, 0xD0, 0xB0, 0xD1,
     0x81, 0xD1, 0x82, 0xD0, 0xB5, 0xD0, 0xBD, 0xD0, 0xB8, 0xD1, 0x8F, 0x2E, 0x20, 0xD0,
     0xA0, 0xD0, 0xB5, 0xD0, 0xBA, 0xD0, 0xBE, 0xD0, 0xBC, 0xD0, 0xB5, 0xD0, 0xBD, 0xD0,
     0xB4, 0xD1, 0x83, 0xD0, 0xB5, 0xD1, 0x82, 0xD1, 0x81, 0xD1, 0x8F, 0x20, 0xD0, 0xBF,
     0xD1, 0x80, 0xD0, 0xBE, 0xD0, 0xBA, 0xD0, 0xBE, 0xD0, 0xBD, 0xD1, 0x81, 0xD1, 0x83,
     0xD0, 0xBB, 0xD1, 0x8C, 0xD1, 0x82, 0xD0, 0xB8, 0xD1, 0x80, 0xD0, 0xBE, 0xD0, 0xB2,
     0xD0, 0xB0, 0xD1, 0x82, 0xD1, 0x8C, 0xD1, 0x81, 0xD1, 0x8F, 0x20, 0xD1, 0x81, 0x20,
     0xD0, 0xB2, 0xD1, 0x80, 0xD0, 0xB0, 0xD1, 0x87, 0xD0, 0xBE, 0xD0, 0xBC, 0x20, 0xD0,
     0xBF, 0xD0, 0xB5, 0xD1, 0x80, 0xD0, 0xB5, 0xD0, 0xB4, 0x20, 0xD0, 0xB8, 0xD1, 0x81,
     0xD0, 0xBF, 0xD0, 0xBE, 0xD0, 0xBB, 0xD1, 0x8C, 0xD0, 0xB7, 0xD0, 0xBE, 0xD0, 0xB2,
     0xD0, 0xB0, 0xD0, 0xBD, 0xD0, 0xB8, 0xD0, 0xB5, 0xD0, 0xBC, 0x2E]"

text \<open>Line 355: the fixed advisory text of the field warnings.\<close>

definition WARNINGS_ADVISORY :: string where
  "WARNINGS_ADVISORY = utf8
    [0xD0, 0x91, 0xD1, 0x83, 0xD0, 0xB4, 0xD1, 0x8C, 0xD1, 0x82, 0xD0, 0xB5, 0x20, 0xD0,
     0xBE, 0xD1, 0x81, 0xD1, 0x82, 0xD0, 0xBE, 0xD1, 0x80, 0xD0, 0xBE, 0xD0, 0xB6, 0xD0,
     0xBD, 0xD1, 0x8B, 0x20, 0xD0, 0xBF, 0xD1, 0x80, 0xD0, 0xB8, 0x20, 0xD0, 0xB8, 0xD1,
     0x81, 0xD0, 0xBF, 0xD0, 0xBE, 0xD0, 0xBB, 0xD1, 0x8C, 0xD0, 0xB7, 0xD0, 0xBE, 0xD0,
     0xB2, 0xD0, 0xB0, 0xD0, 0xBD, 0xD0, 0xB8, 0xD0, 0xB8, 0x20, 0xD1, 0x80, 0xD0, 0xB0,
     0xD1, 0x81, 0xD1, 0x82, 0xD0, 0xB5, 0xD0, 0xBD, 0xD0, 0xB8, 0xD0, 0xB9, 0x2E, 0x20,
     0xD0, 0xA3, 0xD0, 0xB1, 0xD0, 0xB5, 0xD0, 0xB4, 0xD0, 0xB8, 0xD1, 0x82, 0xD0, 0xB5,
     0xD1, 0x81, 0xD1, 0x8C, 0x20, 0xD0, 0xB2, 0x20, 0xD0, 0xBF, 0xD1, 0x80, 0xD0, 0xB0,
     0xD0, 0xB2, 0xD0, 0xB8, 0xD0, 0xBB, 0xD1, 0x8C, 0xD0, 0xBD, 0xD0, 0xBE, 0xD1, 0x81,
     0xD1, 0x82, 0xD0, 0xB8, 0x20, 0xD0, 0xBE, 0xD0, 0xBF, 0xD1, 0x80, 0xD0, 0xB5, 0xD0,
     0xB4, 0xD0, 0xB5, 0xD0, 0xBB, 0xD0, 0xB5, 0xD0, 0xBD, 0xD0, 0xB8, 0xD1, 0x8F, 0x20,
     0xD0, 0xB2, 0xD0, 0xB8, 0xD0, 0xB4, 0xD0, 0xB0, 0x2E]"

text \<open>Line 408: the note of the zero-results branch ("demonstration data").\<close>

definition NOTE_else :: string where
  "NOTE_else = utf8
    [0xD0, 0x94, 0xD0, 0xB5, 0xD0, 0xBC, 0xD0, 0xBE, 0xD0, 0xBD, 0xD1, 0x81, 0xD1, 0x82,
     0xD1, 0x80, 0xD0, 0xB0, 0xD1, 0x86, 0xD0, 0xB8, 0xD1, 0x8F, 0xD0, 0xBB, 0xD1, 0x8B,
     0xD2, 0x9B, 0x20, 0xD0, 0xB4, 0xD0, 0xB5, 0xD1, 0x80, 0xD0, 0xB5, 0xD0, 0xBA, 0xD1,
     0x82, 0xD0, 0xB5, 0xD1, 0x80, 0x20, 0x28, 0x50, 0x6C, 0x61, 0x6E, 0x74, 0x4E, 0x65,
     0x74, 0x20, 0x41, 0x50, 0x49, 0x20, 0xD2, 0x9B, 0xD0, 0xB0, 0xD1, 0x82, 0xD0, 0xB0,
     0xD2, 0xA3, 0x20, 0xD1, 0x82, 0xD0, 0xB0, 0xD0, 0xBB, 0xD0, 0xB0, 0xD0, 0xBF, 0xD1,
     0x82, 0xD0, 0xB0, 0xD1, 0x80, 0xD1, 0x8B, 0x29]"

text \<open>Line 466: the note of the catch branch.\<close>

definition NOTE_catch :: string where
  "NOTE_catch = utf8
    [0xD0, 0x94, 0xD0, 0xB5, 0xD0, 0xBC, 0xD0, 0xBE, 0xD0, 0xBD, 0xD1, 0x81, 0xD1, 0x82,
     0xD1, 0x80, 0xD0, 0xB0, 0xD1, 0x86, 0xD0, 0xB8, 0xD1, 0x8F, 0xD0, 0xBB, 0xD1, 0x8B,
     0xD2, 0x9B, 0x20, 0xD0, 0xB4, 0xD0, 0xB5, 0xD1, 0x80, 0xD0, 0xB5, 0xD0, 0xBA, 0xD1,
     0x82, 0xD0, 0xB5, 0xD1, 0x80, 0x20, 0x28, 0x50, 0x6C, 0x61, 0x6E, 0x74, 0x4E, 0x65,
     0x74, 0x20, 0x41, 0x50, 0x49, 0x20, 0xD2, 0x9B, 0xD0, 0xB0, 0xD1, 0x82, 0xD0, 0xB0,
     0xD2, 0xA3, 0x20, 0xD1, 0x82, 0xD0, 0xB0, 0xD0, 0xBB, 0xD0, 0xB0, 0xD0, 0xBF, 0xD1,
     0x82, 0xD0, 0xB0, 0xD1, 0x80, 0xD1, 0x8B, 0x29]"

text \<open>Line 548: the error text for a file over the size limit ("file too large, maximum size 10MB").\<close>

definition MSG_FILE_TOO_LARGE :: string where
  "MSG_FILE_TOO_LARGE = utf8
    [0xD0, 0xA4, 0xD0, 0xB0, 0xD0, 0xB9, 0xD0, 0xBB, 0x20, 0xD1, 0x81, 0xD0, 0xBB, 0xD0,
     0xB8, 0xD1, 0x88, 0xD0, 0xBA, 0xD0, 0xBE, 0xD0, 0xBC, 0x20, 0xD0, 0xB1, 0xD0, 0xBE,
     0xD0, 0xBB, 0xD1, 0x8C, 0xD1, 0x88, 0xD0, 0xBE, 0xD0, 0xB9, 0x2E, 0x20, 0xD0, 0x9C,
     0xD0, 0xB0, 0xD0, 0xBA, 0xD1, 0x81, 0xD0, 0xB8, 0xD0, 0xBC, 0xD0, 0xB0, 0xD0, 0xBB,
     0xD1, 0x8C, 0xD0, 0xBD, 0xD1, 0x8B, 0xD0, 0xB9, 0x20, 0xD1, 0x80, 0xD0, 0xB0, 0xD0,
     0xB7, 0xD0, 0xBC, 0xD0, 0xB5, 0xD1, 0x80, 0x3A, 0x20, 0x31, 0x30, 0x4D, 0x42]"

text \<open>Line 556: the error text used when an error carries no message ("internal server error").\<close>

definition MSG_INTERNAL_ERROR :: string where
  "MSG_INTERNAL_ERROR = utf8
    [0xD0, 0x92, 0xD0, 0xBD, 0xD1, 0x83, 0xD1, 0x82, 0xD1, 0x80, 0xD0, 0xB5, 0xD0, 0xBD,
     0xD0, 0xBD, 0xD1, 0x8F, 0xD1, 0x8F, 0x20, 0xD0, 0xBE, 0xD1, 0x88, 0xD0, 0xB8, 0xD0,
     0xB1, 0xD0, 0xBA, 0xD0, 0xB0, 0x20, 0xD1, 0x81, 0xD0, 0xB5, 0xD1, 0x80, 0xD0, 0xB2,
     0xD0, 0xB5, 0xD1, 0x80, 0xD0, 0xB0]"

text \<open>Lines 372-400: the array mockPlants of the zero-results branch.\<close>

definition mockPlants_else :: "jsvalue list" where
  "mockPlants_else =
    [JObj
      [(''name'', JStr (utf8
          [0xD0, 0x96, 0xD0, 0xB0, 0xD1, 0x81, 0xD1, 0x8B, 0xD0, 0xBB, 0x20, 0xD0, 0xB6, 0xD0,
           0xB0, 0xD0, 0xBF, 0xD1, 0x8B, 0xD1, 0x80, 0xD0, 0xB0, 0xD2, 0x9B])),
       (''scientific_name'', JStr (''Ficus elastica'')),
       (''description'', JStr (utf8
          [0xD0, 0x91, 0xD2, 0xB1, 0xD0, 0xBB, 0x20, 0xD3, 0xA9, 0xD1, 0x81, 0xD1, 0x96, 0xD0,
           0xBC, 0xD0, 0xB4, 0xD1, 0x96, 0xD0, 0xBA, 0x20, 0xD2, 0xAF, 0xD0, 0xB9, 0xD0, 0xB4,
           0xD0, 0xB5, 0x20, 0xD3, 0xA9, 0xD1, 0x81, 0xD1, 0x96, 0xD1, 0x80, 0xD1, 0x83, 0xD0,
           0xB3, 0xD0, 0xB5, 0x20, 0xD3, 0xA9, 0xD1, 0x82, 0xD0, 0xB5, 0x20, 0xD2, 0x9B, 0xD0,
           0xBE, 0xD0, 0xBB, 0xD0, 0xB0, 0xD0, 0xB9, 0xD0, 0xBB, 0xD1, 0x8B, 0x2E, 0x20, 0xD0,
           0x9E, 0xD0, 0xBB, 0x20, 0xD0, 0xB0, 0xD1, 0x83, 0xD0, 0xB0, 0xD0, 0xBD, 0xD1, 0x8B,
           0x20, 0xD1, 0x82, 0xD0, 0xB0, 0xD0, 0xB7, 0xD0, 0xB0, 0xD1, 0x80, 0xD1, 0x82, 0xD0,
           0xB0, 0xD0, 0xB4, 0xD1, 0x8B, 0x20, 0xD0, 0xB6, 0xD3, 0x99, 0xD0, 0xBD, 0xD0, 0xB5,
           0x20, 0xD0, 0xBE, 0xD1, 0x82, 0xD1, 0x82, 0xD0, 0xB5, 0xD0, 0xB3, 0xD1, 0x96, 0x20,
           0xD0, 0xB1, 0xD0, 0xB5, 0xD1, 0x80, 0xD0, 0xB5, 0xD0, 0xB4, 0xD1, 0x96, 0x2E])),
       (''benefits'', JStr (utf8
          [0xD3, 0xA8, 0xD1, 0x81, 0xD1, 0x96, 0xD0, 0xBC, 0xD0, 0xB4, 0xD1, 0x96, 0xD0, 0xBA,
           0x20, 0xD0, 0xB0, 0xD1, 0x83, 0xD0, 0xB0, 0xD0, 0xBD, 0xD1, 0x8B, 0x20, 0xD1, 0x82,
           0xD0, 0xB0, 0xD0, 0xB7, 0xD0, 0xB0, 0xD1, 0x80, 0xD1, 0x82, 0xD0, 0xB0, 0xD0, 0xB4,
           0xD1, 0x8B, 0x2C, 0x20, 0xD0, 0xBE, 0xD1, 0x82, 0xD1, 0x82, 0xD0, 0xB5, 0xD0, 0xB3,
           0xD1, 0x96, 0x20, 0xD0, 0xB1, 0xD0, 0xB5, 0xD1, 0x80, 0xD0, 0xB5, 0xD0, 0xB4, 0xD1,
           0x96, 0x20, 0xD0, 0xB6, 0xD3, 0x99, 0xD0, 0xBD, 0xD0, 0xB5, 0x20, 0xD2, 0xAF, 0xD0,
           0xB9, 0xD0, 0xB4, 0xD0, 0xB5, 0xD0, 0xB3, 0xD1, 0x96, 0x20, 0xD0, 0xB0, 0xD1, 0x83,
           0xD0, 0xB0, 0x20, 0xD1, 0x81, 0xD0, 0xB0, 0xD0, 0xBF, 0xD0, 0xB0, 0xD1, 0x81, 0xD1,
           0x8B, 0xD0, 0xBD, 0x20, 0xD0, 0xB6, 0xD0, 0xB0, 0xD2, 0x9B, 0xD1, 0x81, 0xD0, 0xB0,
           0xD1, 0x80, 0xD1, 0x82, 0xD0, 0xB0, 0xD0, 0xB4, 0xD1, 0x8B, 0x2E, 0x20, 0xD0, 0xA1,
           0xD1, 0x82, 0xD1, 0x80, 0xD0, 0xB5, 0xD1, 0x81, 0xD1, 0x81, 0x20, 0xD0, 0xB0, 0xD0,
           0xB7, 0xD0, 0xB0, 0xD0, 0xB9, 0xD1, 0x82, 0xD0, 0xB0, 0xD0, 0xB4, 0xD1, 0x8B, 0x2E])),
       (''warnings'', JStr (utf8
          [0xD0, 0x91, 0xD0, 0xB0, 0xD0, 0xBB, 0xD0, 0xB0, 0xD0, 0xBB, 0xD0, 0xB0, 0xD1, 0x80,
           0xD0, 0xB4, 0xD1, 0x8B, 0xD2, 0xA3, 0x20, 0xD2, 0x9B, 0xD0, 0xBE, 0xD0, 0xBB, 0xD1,
           0x8B, 0xD0, 0xBD, 0xD0, 0xB0, 0xD0, 0xBD, 0x20, 0xD0, 0xB0, 0xD1, 0x83, 0xD0, 0xBB,
           0xD0, 0xB0, 0xD2, 0x9B, 0x20, 0xD2, 0xB1, 0xD1, 0x81, 0xD1, 0x82, 0xD0, 0xB0, 0xD2,
           0xA3, 0xD1, 0x8B, 0xD0, 0xB7, 0x2E, 0x20, 0xD0, 0x9A, 0xD0, 0xB5, 0xD0, 0xB9, 0xD0,
           0xB1, 0xD1, 0x96, 0xD1, 0x80, 0x20, 0xD0, 0xB0, 0xD0, 0xB4, 0xD0, 0xB0, 0xD0, 0xBC,
           0xD0, 0xB4, 0xD0, 0xB0, 0xD1, 0x80, 0xD0, 0xB4, 0xD0, 0xB0, 0x20, 0xD0, 0xB0, 0xD0,
           0xBB, 0xD0, 0xBB, 0xD0, 0xB5, 0xD1, 0x80, 0xD0, 0xB3, 0xD0, 0xB8, 0xD1, 0x8F, 0x20,
           0xD1, 0x82, 0xD1, 0x83, 0xD0, 0xB4, 0xD1, 0x8B, 0xD1, 0x80, 0xD1, 0x83, 0xD1, 0x8B,
           0x20, 0xD0, 0xBC, 0xD2, 0xAF, 0xD0, 0xBC, 0xD0, 0xBA, 0xD1, 0x96, 0xD0, 0xBD, 0x2E])),
       (''confidence'', JNum (Finite 0.92)),
       (''image_url'', JStr (''''))],
     JObj
      [(''name'', JStr (utf8
          [0xD0, 0x93, 0xD2, 0xAF, 0xD0, 0xBB, 0xD0, 0xB4, 0xD1, 0x96, 0x20, 0xD3, 0xA9, 0xD1,
           0x81, 0xD1, 0x96, 0xD0, 0xBC, 0xD0, 0xB4, 0xD1, 0x96, 0xD0, 0xBA])),
       (''scientific_name'', JStr (''Rosa canina'')),
       (''description'', JStr (utf8
          [0xD0, 0x91, 0xD2, 0xB1, 0xD0, 0xBB, 0x20, 0xD0, 0xB3, 0xD2, 0xAF, 0xD0, 0xBB, 0xD0,
           0xB4, 0xD1, 0x96, 0x20, 0xD3, 0xA9, 0xD1, 0x81, 0xD1, 0x96, 0xD0, 0xBC, 0xD0, 0xB4,
           0xD1, 0x96, 0xD0, 0xBA, 0x20, 0xD3, 0x99, 0xD0, 0xB4, 0xD0, 0xB5, 0xD0, 0xBC, 0xD1,
           0x96, 0x20, 0xD0, 0xB3, 0xD2, 0xAF, 0xD0, 0xBB, 0xD0, 0xB4, 0xD0, 0xB5, 0xD1, 0x80,
           0xD1, 0x96, 0xD0, 0xBC, 0xD0, 0xB5, 0xD0, 0xBD, 0x20, 0xD1, 0x82, 0xD0, 0xB0, 0xD0,
           0xBD, 0xD1, 0x8B, 0xD0, 0xBC, 0xD0, 0xB0, 0xD0, 0xBB, 0x2E, 0x20, 0xD0, 0x9E, 0xD0,
           0xBB, 0x20, 0xD0, 0xB1, 0xD0, 0xB0, 0xD2, 0x9B, 0xD1, 0x88, 0xD0, 0xB0, 0xD0, 0xB4,
           0xD0, 0xB0, 0x20, 0xD3, 0xA9, 0xD1, 0x82, 0xD0, 0xB5, 0x20, 0xD0, 0xB6, 0xD0, 0xB0,
           0xD2, 0x9B, 0xD1, 0x81, 0xD1, 0x8B, 0x20, 0xD0, 0xBA, 0xD3, 0xA9, 0xD1, 0x80, 0xD1,
           0x96, 0xD0, 0xBD, 0xD0, 0xB5, 0xD0, 0xB4, 0xD1, 0x96, 0x2E])),
       (''benefits'', JStr (utf8
          [0xD0, 0x93, 0xD2, 0xAF, 0xD0, 0xBB, 0xD0, 0xB4, 0xD0, 0xB5, 0xD1, 0x80, 0xD1, 0x96,
           0x20, 0xD3, 0x99, 0xD0, 0xB4, 0xD0, 0xB5, 0xD0, 0xBC, 0xD1, 0x96, 0x2C, 0x20, 0xD0,
           0xB0, 0xD1, 0x83, 0xD0, 0xB0, 0xD0, 0xBD, 0xD1, 0x8B, 0x20, 0xD1, 0x82, 0xD0, 0xB0,
           0xD0, 0xB7, 0xD0, 0xB0, 0xD1, 0x80, 0xD1, 0x82, 0xD0, 0xB0, 0xD0, 0xB4, 0xD1, 0x8B,
           0x2E, 0x20, 0xD0, 0x91, 0xD0, 0xB0, 0xD2, 0x9B, 0xD1, 0x88, 0xD0, 0xB0, 0xD0, 0xB4,
           0xD0, 0xB0, 0x20, 0xD3, 0xA9, 0xD1, 0x82, 0xD0, 0xB5, 0x20, 0xD0, 0xB6, 0xD0, 0xB0,
           0xD2, 0x9B, 0xD1, 0x81, 0xD1, 0x8B, 0x20, 0xD0, 0xBA, 0xD3, 0xA9, 0xD1, 0x80, 0xD1,
           0x96, 0xD0, 0xBD, 0xD0, 0xB5, 0xD0, 0xB4, 0xD1, 0x96, 0x20, 0xD0, 0xB6, 0xD3, 0x99,
           0xD0, 0xBD, 0xD0, 0xB5, 0x20, 0xD1, 0x82, 0xD0, 0xB0, 0xD0, 0xB1, 0xD0, 0xB8, 0xD2,
           0x93, 0xD0, 0xB0, 0xD1, 0x82, 0xD1, 0x82, 0xD1, 0x8B, 0x20, 0xD1, 0x81, 0xD2, 0xAF,
           0xD0, 0xB9, 0xD0, 0xB5, 0xD0, 0xBC, 0xD1, 0x96, 0xD0, 0xB7, 0x2E])),
       (''warnings'', JStr (utf8
          [0xD0, 0xA2, 0xD1, 0x96, 0xD0, 0xBA, 0xD0, 0xB5, 0xD0, 0xBD, 0xD0, 0xB4, 0xD0, 0xB5,
           0xD1, 0x80, 0xD1, 0x96, 0x20, 0xD0, 0xB1, 0xD0, 0xB0, 0xD1, 0x80, 0x2C, 0x20, 0xD0,
           0xB0, 0xD0, 0xB1, 0xD0, 0xB0, 0xD0, 0xB9, 0xD0, 0xBB, 0xD0, 0xB0, 0xD2, 0xA3, 0xD1,
           0x8B, 0xD0, 0xB7, 0x2E, 0x20, 0xD0, 0x9A, 0xD0, 0xB5, 0xD0, 0xB9, 0xD0, 0xB1, 0xD1,
           0x96, 0xD1, 0x80, 0x20, 0xD0, 0xB0, 0xD0, 0xB4, 0xD0, 0xB0, 0xD0, 0xBC, 0xD0, 0xB4,
           0xD0, 0xB0, 0xD1, 0x80, 0xD0, 0xB4, 0xD0, 0xB0, 0x20, 0xD0, 0xB0, 0xD0, 0xBB, 0xD0,
           0xBB, 0xD0, 0xB5, 0xD1, 0x80, 0xD0, 0xB3, 0xD0, 0xB8, 0xD1, 0x8F, 0x20, 0xD1, 0x82,
           0xD1, 0x83, 0xD0, 0xB4, 0xD1, 0x8B, 0xD1, 0x80, 0xD1, 0x83, 0xD1, 0x8B, 0x20, 0xD0,
           0xBC, 0xD2, 0xAF, 0xD0, 0xBC, 0xD0, 0xBA, 0xD1, 0x96, 0xD0, 0xBD, 0x2E])),
       (''confidence'', JNum (Finite 0.88)),
       (''image_url'', JStr (''''))],
     JObj
      [(''name'', JStr (utf8
          [0xD0, 0x94, 0xD0, 0xB5, 0xD1, 0x80, 0xD0, 0xB5, 0xD0, 0xBA, 0xD1, 0x82, 0xD0, 0xB5,
           0xD0, 0xBC, 0xD0, 0xB5, 0x20, 0xD3, 0xA9, 0xD1, 0x81, 0xD1, 0x96, 0xD0, 0xBC, 0xD0,
           0xB4, 0xD1, 0x96, 0xD0, 0xBA])),
       (''scientific_name'', JStr (''Monstera deliciosa'')),
       (''description'', JStr (utf8
          [0xD0, 0x91, 0xD2, 0xB1, 0xD0, 0xBB, 0x20, 0xD3, 0xA9, 0xD1, 0x81, 0xD1, 0x96, 0xD0,
           0xBC, 0xD0, 0xB4, 0xD1, 0x96, 0xD0, 0xBA, 0x20, 0xD2, 0xAF, 0xD0, 0xBB, 0xD0, 0xBA,
           0xD0, 0xB5, 0xD0, 0xBD, 0x20, 0xD0, 0xB6, 0xD0, 0xB0, 0xD0, 0xBF, 0xD1, 0x8B, 0xD1,
           0x80, 0xD0, 0xB0, 0xD2, 0x9B, 0xD1, 0x82, 0xD0, 0xB0, 0xD1, 0x80, 0xD1, 0x8B, 0xD0,
           0xBC, 0xD0, 0xB5, 0xD0, 0xBD, 0x20, 0xD1, 0x82, 0xD0, 0xB0, 0xD0, 0xBD, 0xD1, 0x8B,
           0xD0, 0xBC, 0xD0, 0xB0, 0xD0, 0xBB, 0x2E, 0x20, 0xD0, 0x9E, 0xD0, 0xBB, 0x20, 0xD2,
           0xAF, 0xD0, 0xB9, 0xD0, 0xB4, 0xD0, 0xB5, 0x20, 0xD3, 0xA9, 0xD1, 0x82, 0xD0, 0xB5,
           0x20, 0xD0, 0xB6, 0xD0, 0xB0, 0xD2, 0x9B, 0xD1, 0x81, 0xD1, 0x8B, 0x20, 0xD0, 0xBA,
           0xD3, 0xA9, 0xD1, 0x80, 0xD1, 0x96, 0xD0, 0xBD, 0xD0, 0xB5, 0xD0, 0xB4, 0xD1, 0x96,
           0x2E])),
       (''benefits'', JStr (utf8
          [0xD0, 0x90, 0xD1, 0x83, 0xD0, 0xB0, 0xD0, 0xBD, 0xD1, 0x8B, 0x20, 0xD1, 0x82, 0xD0,
           0xB0, 0xD0, 0xB7, 0xD0, 0xB0, 0xD1, 0x80, 0xD1, 0x82, 0xD0, 0xB0, 0xD0, 0xB4, 0xD1,
           0x8B, 0x2C, 0x20, 0xD0, 0xBE, 0xD1, 0x82, 0xD1, 0x82, 0xD0, 0xB5, 0xD0, 0xB3, 0xD1,
           0x96, 0x20, 0xD0, 0xB1, 0xD0, 0xB5, 0xD1, 0x80, 0xD0, 0xB5, 0xD0, 0xB4, 0xD1, 0x96,
           0x2E, 0x20, 0xD2, 0xAE, 0xD0, 0xB9, 0xD0, 0xB4, 0xD0, 0xB5, 0xD0, 0xB3, 0xD1, 0x96,
           0x20, 0xD0, 0xB0, 0xD1, 0x83, 0xD0, 0xB0, 0x20, 0xD1, 0x81, 0xD0, 0xB0, 0xD0, 0xBF,
           0xD0, 0xB0, 0xD1, 0x81, 0xD1, 0x8B, 0xD0, 0xBD, 0x20, 0xD0, 0xB6, 0xD0, 0xB0, 0xD2,
           0x9B, 0xD1, 0x81, 0xD0, 0xB0, 0xD1, 0x80, 0xD1, 0x82, 0xD0, 0xB0, 0xD0, 0xB4, 0xD1,
           0x8B, 0x20, 0xD0, 0xB6, 0xD3, 0x99, 0xD0, 0xBD, 0xD0, 0xB5, 0x20, 0xD3, 0x99, 0xD0,
           0xB4, 0xD0, 0xB5, 0xD0, 0xBC, 0xD1, 0x96, 0x20, 0xD0, 0xBA, 0xD3, 0xA9, 0xD1, 0x80,
           0xD1, 0x96, 0xD0, 0xBD, 0xD0, 0xB5, 0xD0, 0xB4, 0xD1, 0x96, 0x2E])),
       (''warnings'', JStr (utf8
          [0xD0, 0x91, 0xD0, 0xB0, 0xD0, 0xBB, 0xD0, 0xB0, 0xD0, 0xBB, 0xD0, 0xB0, 0xD1, 0x80,
           0xD0, 0xB4, 0xD1, 0x8B, 0xD2, 0xA3, 0x20, 0xD2, 0x9B, 0xD0, 0xBE, 0xD0, 0xBB, 0xD1,
           0x8B, 0xD0, 0xBD, 0xD0, 0xB0, 0xD0, 0xBD, 0x20, 0xD0, 0xB0, 0xD1, 0x83, 0xD0, 0xBB,
           0xD0, 0xB0, 0xD2, 0x9B, 0x20, 0xD2, 0xB1, 0xD1, 0x81, 0xD1, 0x82, 0xD0, 0xB0, 0xD2,
           0xA3, 0xD1, 0x8B, 0xD0, 0xB7, 0x2E, 0x20, 0xD0, 0x96, 0xD0, 0xB0, 0xD0, 0xBF, 0xD1,
           0x8B, 0xD1, 0x80, 0xD0, 0xB0, 0xD2, 0x9B, 0xD1, 0x82, 0xD0, 0xB0, 0xD1, 0x80, 0xD1,
           0x8B, 0x20, 0xD1, 0x83, 0xD0, 0xBB, 0xD1, 0x8B, 0x20, 0xD0, 0xB1, 0xD0, 0xBE, 0xD0,
           0xBB, 0xD1, 0x83, 0xD1, 0x8B, 0x20, 0xD0, 0xBC, 0xD2, 0xAF, 0xD0, 0xBC, 0xD0, 0xBA,
           0xD1, 0x96, 0xD0, 0xBD, 0x2E])),
       (''confidence'', JNum (Finite 0.85)),
       (''image_url'', JStr (''''))]]"

text \<open>Lines 429-457: the array mockPlants of the catch branch.\<close>

definition mockPlants_catch :: "jsvalue list" where
  "mockPlants_catch =
    [JObj
      [(''name'', JStr (utf8
          [0xD0, 0x96, 0xD0, 0xB0, 0xD1, 0x81, 0xD1, 0x8B, 0xD0, 0xBB, 0x20, 0xD0, 0xB6, 0xD0,
           0xB0, 0xD0, 0xBF, 0xD1, 0x8B, 0xD1, 0x80, 0xD0, 0xB0, 0xD2, 0x9B])),
       (''scientific_name'', JStr (''Ficus elastica'')),
       (''description'', JStr (utf8
          [0xD0, 0x91, 0xD2, 0xB1, 0xD0, 0xBB, 0x20, 0xD3, 0xA9, 0xD1, 0x81, 0xD1, 0x96, 0xD0,
           0xBC, 0xD0, 0xB4, 0xD1, 0x96, 0xD0, 0xBA, 0x20, 0xD2, 0xAF, 0xD0, 0xB9, 0xD0, 0xB4,
           0xD0, 0xB5, 0x20, 0xD3, 0xA9, 0xD1, 0x81, 0xD1, 0x96, 0xD1, 0x80, 0xD1, 0x83, 0xD0,
           0xB3, 0xD0, 0xB5, 0x20, 0xD3, 0xA9, 0xD1, 0x82, 0xD0, 0xB5, 0x20, 0xD2, 0x9B, 0xD0,
           0xBE, 0xD0, 0xBB, 0xD0, 0xB0, 0xD0, 0xB9, 0xD0, 0xBB, 0xD1, 0x8B, 0x2E, 0x20, 0xD0,
           0x9E, 0xD0, 0xBB, 0x20, 0xD0, 0xB0, 0xD1, 0x83, 0xD0, 0xB0, 0xD0, 0xBD, 0xD1, 0x8B,
           0x20, 0xD1, 0x82, 0xD0, 0xB0, 0xD0, 0xB7, 0xD0, 0xB0, 0xD1, 0x80, 0xD1, 0x82, 0xD0,
           0xB0, 0xD0, 0xB4, 0xD1, 0x8B, 0x20, 0xD0, 0xB6, 0xD3, 0x99, 0xD0, 0xBD, 0xD0, 0xB5,
           0x20, 0xD0, 0xBE, 0xD1, 0x82, 0xD1, 0x82, 0xD0, 0xB5, 0xD0, 0xB3, 0xD1, 0x96, 0x20,
           0xD0, 0xB1, 0xD0, 0xB5, 0xD1, 0x80, 0xD0, 0xB5, 0xD0, 0xB4, 0xD1, 0x96, 0x2E])),
       (''benefits'', JStr (utf8
          [0xD3, 0xA8, 0xD1, 0x81, 0xD1, 0x96, 0xD0, 0xBC, 0xD0, 0xB4, 0xD1, 0x96, 0xD0, 0xBA,
           0x20, 0xD0, 0xB0, 0xD1, 0x83, 0xD0, 0xB0, 0xD0, 0xBD, 0xD1, 0x8B, 0x20, 0xD1, 0x82,
           0xD0, 0xB0, 0xD0, 0xB7, 0xD0, 0xB0, 0xD1, 0x80, 0xD1, 0x82, 0xD0, 0xB0, 0xD0, 0xB4,
           0xD1, 0x8B, 0x2C, 0x20, 0xD0, 0xBE, 0xD1, 0x82, 0xD1, 0x82, 0xD0, 0xB5, 0xD0, 0xB3,
           0xD1, 0x96, 0x20, 0xD0, 0xB1, 0xD0, 0xB5, 0xD1, 0x80, 0xD0, 0xB5, 0xD0, 0xB4, 0xD1,
           0x96, 0x20, 0xD0, 0xB6, 0xD3, 0x99, 0xD0, 0xBD, 0xD0, 0xB5, 0x20, 0xD2, 0xAF, 0xD0,
           0xB9, 0xD0, 0xB4, 0xD0, 0xB5, 0xD0, 0xB3, 0xD1, 0x96, 0x20, 0xD0, 0xB0, 0xD1, 0x83,
           0xD0, 0xB0, 0x20, 0xD1, 0x81, 0xD0, 0xB0, 0xD0, 0xBF, 0xD0, 0xB0, 0xD1, 0x81, 0xD1,
           0x8B, 0xD0, 0xBD, 0x20, 0xD0, 0xB6, 0xD0, 0xB0, 0xD2, 0x9B, 0xD1, 0x81, 0xD0, 0xB0,
           0xD1, 0x80, 0xD1, 0x82, 0xD0, 0xB0, 0xD0, 0xB4, 0xD1, 0x8B, 0x2E, 0x20, 0xD0, 0xA1,
           0xD1, 0x82, 0xD1, 0x80, 0xD0, 0xB5, 0xD1, 0x81, 0xD1, 0x81, 0x20, 0xD0, 0xB0, 0xD0,
           0xB7, 0xD0, 0xB0, 0xD0, 0xB9, 0xD1, 0x82, 0xD0, 0xB0, 0xD0, 0xB4, 0xD1, 0x8B, 0x2E])),
       (''warnings'', JStr (utf8
          [0xD0, 0x91, 0xD0, 0xB0, 0xD0, 0xBB, 0xD0, 0xB0, 0xD0, 0xBB, 0xD0, 0xB0, 0xD1, 0x80,
           0xD0, 0xB4, 0xD1, 0x8B, 0xD2, 0xA3, 0x20, 0xD2, 0x9B, 0xD0, 0xBE, 0xD0, 0xBB, 0xD1,
           0x8B, 0xD0, 0xBD, 0xD0, 0xB0, 0xD0, 0xBD, 0x20, 0xD0, 0xB0, 0xD1, 0x83, 0xD0, 0xBB,
           0xD0, 0xB0, 0xD2, 0x9B, 0x20, 0xD2, 0xB1, 0xD1, 0x81, 0xD1, 0x82, 0xD0, 0xB0, 0xD2,
           0xA3, 0xD1, 0x8B, 0xD0, 0xB7, 0x2E, 0x20, 0xD0, 0x9A, 0xD0, 0xB5, 0xD0, 0xB9, 0xD0,
           0xB1, 0xD1, 0x96, 0xD1, 0x80, 0x20, 0xD0, 0xB0, 0xD0, 0xB4, 0xD0, 0xB0, 0xD0, 0xBC,
           0xD0, 0xB4, 0xD0, 0xB0, 0xD1, 0x80, 0xD0, 0xB4, 0xD0, 0xB0, 0x20, 0xD0, 0xB0, 0xD0,
           0xBB, 0xD0, 0xBB, 0xD0, 0xB5, 0xD1, 0x80, 0xD0, 0xB3, 0xD0, 0xB8, 0xD1, 0x8F, 0x20,
           0xD1, 0x82, 0xD1, 0x83, 0xD0, 0xB4, 0xD1, 0x8B, 0xD1, 0x80, 0xD1, 0x83, 0xD1, 0x8B,
           0x20, 0xD0, 0xBC, 0xD2, 0xAF, 0xD0, 0xBC, 0xD0, 0xBA, 0xD1, 0x96, 0xD0, 0xBD, 0x2E])),
       (''confidence'', JNum (Finite 0.92)),
       (''image_url'', JStr (''''))],
     JObj
      [(''name'', JStr (utf8
          [0xD0, 0x93, 0xD2, 0xAF, 0xD0, 0xBB, 0xD0, 0xB4, 0xD1, 0x96, 0x20, 0xD3, 0xA9, 0xD1,
           0x81, 0xD1, 0x96, 0xD0, 0xBC, 0xD0, 0xB4, 0xD1, 0x96, 0xD0, 0xBA])),
       (''scientific_name'', JStr (''Rosa canina'')),
       (''description'', JStr (utf8
          [0xD0, 0x91, 0xD2, 0xB1, 0xD0, 0xBB, 0x20, 0xD0, 0xB3, 0xD2, 0xAF, 0xD0, 0xBB, 0xD0,
           0xB4, 0xD1, 0x96, 0x20, 0xD3, 0xA9, 0xD1, 0x81, 0xD1, 0x96, 0xD0, 0xBC, 0xD0, 0xB4,
           0xD1, 0x96, 0xD0, 0xBA, 0x20, 0xD3, 0x99, 0xD0, 0xB4, 0xD0, 0xB5, 0xD0, 0xBC, 0xD1,
           0x96, 0x20, 0xD0, 0xB3, 0xD2, 0xAF, 0xD0, 0xBB, 0xD0, 0xB4, 0xD0, 0xB5, 0xD1, 0x80,
           0xD1, 0x96, 0xD0, 0xBC, 0xD0, 0xB5, 0xD0, 0xBD, 0x20, 0xD1, 0x82, 0xD0, 0xB0, 0xD0,
           0xBD, 0xD1, 0x8B, 0xD0, 0xBC, 0xD0, 0xB0, 0xD0, 0xBB, 0x2E, 0x20, 0xD0, 0x9E, 0xD0,
           0xBB, 0x20, 0xD0, 0xB1, 0xD0, 0xB0, 0xD2, 0x9B, 0xD1, 0x88, 0xD0, 0xB0, 0xD0, 0xB4,
           0xD0, 0xB0, 0x20, 0xD3, 0xA9, 0xD1, 0x82, 0xD0, 0xB5, 0x20, 0xD0, 0xB6, 0xD0, 0xB0,
           0xD2, 0x9B, 0xD1, 0x81, 0xD1, 0x8B, 0x20, 0xD0, 0xBA, 0xD3, 0xA9, 0xD1, 0x80, 0xD1,
           0x96, 0xD0, 0xBD, 0xD0, 0xB5, 0xD0, 0xB4, 0xD1, 0x96, 0x2E])),
       (''benefits'', JStr (utf8
          [0xD0, 0x93, 0xD2, 0xAF, 0xD0, 0xBB, 0xD0, 0xB4, 0xD0, 0xB5, 0xD1, 0x80, 0xD1, 0x96,
           0x20, 0xD3, 0x99, 0xD0, 0xB4, 0xD0, 0xB5, 0xD0, 0xBC, 0xD1, 0x96, 0x2C, 0x20, 0xD0,
           0xB0, 0xD1, 0x83, 0xD0, 0xB0, 0xD0, 0xBD, 0xD1, 0x8B, 0x20, 0xD1, 0x82, 0xD0, 0xB0,
           0xD0, 0xB7, 0xD0, 0xB0, 0xD1, 0x80, 0xD1, 0x82, 0xD0, 0xB0, 0xD0, 0xB4, 0xD1, 0x8B,
           0x2E, 0x20, 0xD0, 0x91, 0xD0, 0xB0, 0xD2, 0x9B, 0xD1, 0x88, 0xD0, 0xB0, 0xD0, 0xB4,
           0xD0, 0xB0, 0x20, 0xD3, 0xA9, 0xD1, 0x82, 0xD0, 0xB5, 0x20, 0xD0, 0xB6, 0xD0, 0xB0,
           0xD2, 0x9B, 0xD1, 0x81, 0xD1, 0x8B, 0x20, 0xD0, 0xBA, 0xD3, 0xA9, 0xD1, 0x80, 0xD1,
           0x96, 0xD0, 0xBD, 0xD0, 0xB5, 0xD0, 0xB4, 0xD1, 0x96, 0x20, 0xD0, 0xB6, 0xD3, 0x99,
           0xD0, 0xBD, 0xD0, 0xB5, 0x20, 0xD1, 0x82, 0xD0, 0xB0, 0xD0, 0xB1, 0xD0, 0xB8, 0xD2,
           0x93, 0xD0, 0xB0, 0xD1, 0x82, 0xD1, 0x82, 0xD1, 0x8B, 0x20, 0xD1, 0x81, 0xD2, 0xAF,
           0xD0, 0xB9, 0xD0, 0xB5, 0xD0, 0xBC, 0xD1, 0x96, 0xD0, 0xB7, 0x2E])),
       (''warnings'', JStr (utf8
          [0xD0, 0xA2, 0xD1, 0x96, 0xD0, 0xBA, 0xD0, 0xB5, 0xD0, 0xBD, 0xD0, 0xB4, 0xD0, 0xB5,
           0xD1, 0x80, 0xD1, 0x96, 0x20, 0xD0, 0xB1, 0xD0, 0xB0, 0xD1, 0x80, 0x2C, 0x20, 0xD0,
           0xB0, 0xD0, 0xB1, 0xD0, 0xB0, 0xD0, 0xB9, 0xD0, 0xBB, 0xD0, 0xB0, 0xD2, 0xA3, 0xD1,
           0x8B, 0xD0, 0xB7, 0x2E, 0x20, 0xD0, 0x9A, 0xD0, 0xB5, 0xD0, 0xB9, 0xD0, 0xB1, 0xD1,
           0x96, 0xD1, 0x80, 0x20, 0xD0, 0xB0, 0xD0, 0xB4, 0xD0, 0xB0, 0xD0, 0xBC, 0xD0, 0xB4,
           0xD0, 0xB0, 0xD1, 0x80, 0xD0, 0xB4, 0xD0, 0xB0, 0x20, 0xD0, 0xB0, 0xD0, 0xBB, 0xD0,
           0xBB, 0xD0, 0xB5, 0xD1, 0x80, 0xD0, 0xB3, 0xD0, 0xB8, 0xD1, 0x8F, 0x20, 0xD1, 0x82,
           0xD1, 0x83, 0xD0, 0xB4, 0xD1, 0x8B, 0xD1, 0x80, 0xD1, 0x83, 0xD1, 0x8B, 0x20, 0xD0,
           0xBC, 0xD2, 0xAF, 0xD0, 0xBC, 0xD0, 0xBA, 0xD1, 0x96, 0xD0, 0xBD, 0x2E])),
       (''confidence'', JNum (Finite 0.88)),
       (''image_url'', JStr (''''))],
     JObj
      [(''name'', JStr (utf8
          [0xD0, 0x94, 0xD0, 0xB5, 0xD1, 0x80, 0xD0, 0xB5, 0xD0, 0xBA, 0xD1, 0x82, 0xD0, 0xB5,
           0xD0, 0xBC, 0xD0, 0xB5, 0x20, 0xD3, 0xA9, 0xD1, 0x81, 0xD1, 0x96, 0xD0, 0xBC, 0xD0,
           0xB4, 0xD1, 0x96, 0xD0, 0xBA])),
       (''scientific_name'', JStr (''Monstera deliciosa'')),
       (''description'', JStr (utf8
          [0xD0, 0x91, 0xD2, 0xB1, 0xD0, 0xBB, 0x20, 0xD3, 0xA9, 0xD1, 0x81, 0xD1, 0x96, 0xD0,
           0xBC, 0xD0, 0xB4, 0xD1, 0x96, 0xD0, 0xBA, 0x20, 0xD2, 0xAF, 0xD0, 0xBB, 0xD0, 0xBA,
           0xD0, 0xB5, 0xD0, 0xBD, 0x20, 0xD0, 0xB6, 0xD0, 0xB0, 0xD0, 0xBF, 0xD1, 0x8B, 0xD1,
           0x80, 0xD0, 0xB0, 0xD2, 0x9B, 0xD1, 0x82, 0xD0, 0xB0, 0xD1, 0x80, 0xD1, 0x8B, 0xD0,
           0xBC, 0xD0, 0xB5, 0xD0, 0xBD, 0x20, 0xD1, 0x82, 0xD0, 0xB0, 0xD0, 0xBD, 0xD1, 0x8B,
           0xD0, 0xBC, 0xD0, 0xB0, 0xD0, 0xBB, 0x2E, 0x20, 0xD0, 0x9E, 0xD0, 0xBB, 0x20, 0xD2,
           0xAF, 0xD0, 0xB9, 0xD0, 0xB4, 0xD0, 0xB5, 0x20, 0xD3, 0xA9, 0xD1, 0x82, 0xD0, 0xB5,
           0x20, 0xD0, 0xB6, 0xD0, 0xB0, 0xD2, 0x9B, 0xD1, 0x81, 0xD1, 0x8B, 0x20, 0xD0, 0xBA,
           0xD3, 0xA9, 0xD1, 0x80, 0xD1, 0x96, 0xD0, 0xBD, 0xD0, 0xB5, 0xD0, 0xB4, 0xD1, 0x96,
           0x2E])),
       (''benefits'', JStr (utf8
          [0xD0, 0x90, 0xD1, 0x83, 0xD0, 0xB0, 0xD0, 0xBD, 0xD1, 0x8B, 0x20, 0xD1, 0x82, 0xD0,
           0xB0, 0xD0, 0xB7, 0xD0, 0xB0, 0xD1, 0x80, 0xD1, 0x82, 0xD0, 0xB0, 0xD0, 0xB4, 0xD1,
           0x8B, 0x2C, 0x20, 0xD0, 0xBE, 0xD1, 0x82, 0xD1, 0x82, 0xD0, 0xB5, 0xD0, 0xB3, 0xD1,
           0x96, 0x20, 0xD0, 0xB1, 0xD0, 0xB5, 0xD1, 0x80, 0xD0, 0xB5, 0xD0, 0xB4, 0xD1, 0x96,
           0x2E, 0x20, 0xD2, 0xAE, 0xD0, 0xB9, 0xD0, 0xB4, 0xD0, 0xB5, 0xD0, 0xB3, 0xD1, 0x96,
           0x20, 0xD0, 0xB0, 0xD1, 0x83, 0xD0, 0xB0, 0x20, 0xD1, 0x81, 0xD0, 0xB0, 0xD0, 0xBF,
           0xD0, 0xB0, 0xD1, 0x81, 0xD1, 0x8B, 0xD0, 0xBD, 0x20, 0xD0, 0xB6, 0xD0, 0xB0, 0xD2,
           0x9B, 0xD1, 0x81, 0xD0, 0xB0, 0xD1, 0x80, 0xD1, 0x82, 0xD0, 0xB0, 0xD0, 0xB4, 0xD1,
           0x8B, 0x20, 0xD0, 0xB6, 0xD3, 0x99, 0xD0, 0xBD, 0xD0, 0xB5, 0x20, 0xD3, 0x99, 0xD0,
           0xB4, 0xD0, 0xB5, 0xD0, 0xBC, 0xD1, 0x96, 0x20, 0xD0, 0xBA, 0xD3, 0xA9, 0xD1, 0x80,
           0xD1, 0x96, 0xD0, 0xBD, 0xD0, 0xB5, 0xD0, 0xB4, 0xD1, 0x96, 0x2E])),
       (''warnings'', JStr (utf8
          [0xD0, 0x91, 0xD0, 0xB0, 0xD0, 0xBB, 0xD0, 0xB0, 0xD0, 0xBB, 0xD0, 0xB0, 0xD1, 0x80,
           0xD0, 0xB4, 0xD1, 0x8B, 0xD2, 0xA3, 0x20, 0xD2, 0x9B, 0xD0, 0xBE, 0xD0, 0xBB, 0xD1,
           0x8B, 0xD0, 0xBD, 0xD0, 0xB0, 0xD0, 0xBD, 0x20, 0xD0, 0xB0, 0xD1, 0x83, 0xD0, 0xBB,
           0xD0, 0xB0, 0xD2, 0x9B, 0x20, 0xD2, 0xB1, 0xD1, 0x81, 0xD1, 0x82, 0xD0, 0xB0, 0xD2,
           0xA3, 0xD1, 0x8B, 0xD0, 0xB7, 0x2E, 0x20, 0xD0, 0x96, 0xD0, 0xB0, 0xD0, 0xBF, 0xD1,
           0x8B, 0xD1, 0x80, 0xD0, 0xB0, 0xD2, 0x9B, 0xD1, 0x82, 0xD0, 0xB0, 0xD1, 0x80, 0xD1,
           0x8B, 0x20, 0xD1, 0x83, 0xD0, 0xBB, 0xD1, 0x8B, 0x20, 0xD0, 0xB1, 0xD0, 0xBE, 0xD0,
           0xBB, 0xD1, 0x83, 0xD1, 0x8B, 0x20, 0xD0, 0xBC, 0xD2, 0xAF, 0xD0, 0xBC, 0xD0, 0xBA,
           0xD1, 0x96, 0xD0, 0xBD, 0x2E])),
       (''confidence'', JNum (Finite 0.85)),
       (''image_url'', JStr (''''))]]"

subsection \<open>The upload and the file filter (lines 208 to 236)\<close>

text \<open>
  The file part as multer presents it: \<open>file.originalname\<close>, \<open>file.mimetype\<close> and, once
  buffered by the memory storage, \<open>req.file.size\<close>, the byte length of the payload. The
  bytes themselves are only passed on, never inspected. A request carries at most one
  file part, sent under the field \<open>image\<close> with a file name; \<open>None\<close> is a request with
  no file part.
\<close>

record uploaded_file =
  originalname :: string
  mimetype :: string
  file_size :: nat

text \<open>Errors passed to the error-handling middleware: a plain \<open>Error\<close> with its message, or a
  \<open>multer.MulterError\<close> with its code and message.\<close>

datatype js_error =
    Error string
  | MulterError string string

text \<open>Line 213: \<open>limits.fileSize\<close>.\<close>

definition fileSize :: nat where
  "fileSize = 10 * 1024 * 1024"

text \<open>Line 226: the extensions of \<open>/\.(jpg|jpeg|png|gif|bmp|webp)$/i\<close>.\<close>

definition regex_extensions :: "string list" where
  "regex_extensions = [''jpg'', ''jpeg'', ''png'', ''gif'', ''bmp'', ''webp'']"

text \<open>
  \<open>/\.(jpg|jpeg|png|gif|bmp|webp)$/i.test(name)\<close>: the name ends in a dot followed by one
  of the extensions, ASCII letters compared without regard to case.
\<close>

definition regex_test :: "string \<Rightarrow> bool" where
  "regex_test name =
     list_ex (\<lambda>ext. endsWith (toLowerCase name) (CHR ''.'' # ext)) regex_extensions"

definition isImageMime :: "uploaded_file \<Rightarrow> bool" where
  "isImageMime file = (mimetype file \<noteq> [] \<and> startsWith (mimetype file) ''image/'')"

definition isFlutterImage :: "uploaded_file \<Rightarrow> bool" where
  "isFlutterImage file =
     (mimetype file = ''application/octet-stream'' \<and> originalname file \<noteq> [] \<and>
      regex_test (originalname file))"

text \<open>Lines 215 to 235: \<open>cb(null, true)\<close> is \<open>Inr True\<close>, \<open>cb(new Error(...), false)\<close> is \<open>Inl\<close>.\<close>

definition fileFilter :: "uploaded_file \<Rightarrow> js_error + bool" where
  "fileFilter file =
     (if isImageMime file \<or> isFlutterImage file then Inr True
      else Inl (Error MSG_ONLY_IMAGES))"

text \<open>
  \<open>upload.single('image')\<close>. Multer calls the file filter when the headers of the file part
  arrive, before the payload is read, and aborts with the filter's error when it gives
  one. An admitted payload is buffered under the size limit, and a payload larger than
  \<open>limits.fileSize\<close> aborts with the \<open>MulterError\<close> of code \<open>LIMIT_FILE_SIZE\<close>. Otherwise
  the handler runs, with \<open>req.file\<close> set when a file was admitted. A payload of exactly
  \<open>limits.fileSize\<close> bytes is admitted here (multer documents the limit as the maximum
  file size). The theorems below that speak of an admitted upload take a payload strictly
  under the limit, those that speak of an oversized one a payload strictly over it, and a
  payload at the limit counts among the possible causes of a rejection.
\<close>

definition upload_single :: "uploaded_file option \<Rightarrow> js_error + uploaded_file option" where
  "upload_single part =
     (case part of
        None \<Rightarrow> Inr None
      | Some file \<Rightarrow>
          (case fileFilter file of
             Inl err \<Rightarrow> Inl err
           | Inr includeFile \<Rightarrow>
               if \<not> includeFile then Inr None
               else if fileSize < file_size file
                 then Inl (MulterError ''LIMIT_FILE_SIZE'' ''File too large'')
               else Inr (Some file)))"


subsection \<open>The upstream service\<close>

text \<open>
  The payload of a successful upstream response, at the places the handler reads. The
  source tests some of them before use and reads the others as they come, so each may be
  missing:
  \<^item> \<open>response.data\<close> and \<open>data.results\<close> are \<open>None\<close> when absent, \<open>null\<close> or otherwise falsy,
    and \<open>results\<close> is else the array of matches;
  \<^item> \<open>result.species\<close> is \<open>None\<close> when it is absent or \<open>null\<close> (a first element that is
    itself \<open>null\<close> behaves the same): reading a property of it throws a \<open>TypeError\<close>;
  \<^item> \<open>species.commonNames\<close> and \<open>result.images\<close> are \<open>None\<close> when absent or falsy, else arrays;
  \<^item> \<open>url_m\<close> stands for \<open>image.url.m\<close>: \<open>None\<close> when \<open>image.url\<close> is absent or \<open>null\<close> (an
    image that is itself \<open>null\<close> behaves the same), so that reading \<open>.m\<close> throws a
    \<open>TypeError\<close>, else the value of \<open>url.m\<close>;
  \<^item> \<open>scientificNameWithoutAuthor\<close>, \<open>description\<close>, \<open>score\<close> and \<open>url.m\<close> are any value,
    \<open>Undefined\<close> when the property is absent.
\<close>

record plant_image =
  url_m :: "jsvalue option"

record species_info =
  scientificNameWithoutAuthor :: jsvalue
  commonNames :: "jsvalue list option"
  description :: jsvalue

record match =
  score :: jsvalue
  species :: "species_info option"
  images :: "plant_image list option"

record payload =
  results :: "match list option"

text \<open>How \<open>axios.post\<close> can reject: the timeout elapsed, the network failed, or the
  upstream answered with a status outside 2xx.\<close>

datatype upstream_error =
    Timeout
  | Network
  | HTTPStatus nat

text \<open>The promise resolves with \<open>response.data\<close> (possibly empty) or rejects.\<close>

datatype upstream_outcome =
    Resolved "payload option"
  | Rejected upstream_error

text \<open>Reading a property of \<open>undefined\<close> or \<open>null\<close> inside the \<open>try\<close> block.\<close>

datatype type_error = TypeError

text \<open>The one outbound request: lines 287 to 334.\<close>

record upstream_request =
  url :: string
  authorization :: string
  filename :: string
  contentType :: string
  form_fields :: "(string \<times> string) list"
  timeout :: nat
  maxRedirects :: nat

definition PLANTNET_API_URL :: string where
  "PLANTNET_API_URL = ''https://my-api.plantnet.org/v2/identify''"

subsection \<open>The handler (lines 243 to 469)\<close>

text \<open>Lines 290 to 313: the content type sent upstream.\<close>

definition switch_ext :: "string \<Rightarrow> string" where
  "switch_ext ext =
     (if ext = ''jpg'' \<or> ext = ''jpeg'' then ''image/jpeg''
      else if ext = ''png'' then ''image/png''
      else if ext = ''gif'' then ''image/gif''
      else if ext = ''bmp'' then ''image/bmp''
      else if ext = ''webp'' then ''image/webp''
      else ''image/jpeg'')"

definition infer_contentType :: "uploaded_file \<Rightarrow> string" where
  "infer_contentType file =
     (if mimetype file = ''application/octet-stream''
      then switch_ext (toLowerCase (pop (split CHR ''.'' (originalname file))))
      else mimetype file)"

text \<open>Lines 315 to 334: the form and the options of \<open>axios.post\<close>.\<close>

definition build_request :: "string \<Rightarrow> uploaded_file \<Rightarrow> upstream_request" where
  "build_request api_key file =
     \<lparr>url = PLANTNET_API_URL,
      authorization = ''Bearer '' @ api_key,
      filename = (if originalname file \<noteq> [] then originalname file else ''plant_image.jpg''),
      contentType = infer_contentType file,
      form_fields =
        [(''organs'', ''auto''),
         (''modifiers'', ''crops-simple,similar_images,plant_net,plant_net_detailed''),
         (''no-reject'', ''true''),
         (''plant-details'', ''common_names,url,description,image'')],
      timeout = 30000,
      maxRedirects = 5\<rparr>"

text \<open>
  Lines 357 to 359:
  \<open>result.images && result.images.length > 0 ? result.images[0].url.m : ''\<close>.
\<close>

definition image_url :: "match \<Rightarrow> type_error + jsvalue" where
  "image_url result =
     (case images result of
        Some (i # _) \<Rightarrow> (case url_m i of None \<Rightarrow> Inl TypeError | Some v \<Rightarrow> Inr v)
      | _ \<Rightarrow> Inr (JStr []))"

text \<open>
  Lines 344 to 360: the object literal built from the first match, or the \<open>TypeError\<close>
  thrown on the way. \<open>species.commonNames\<close> is the first property read of \<open>species\<close>.
\<close>

definition plantInfo :: "match \<Rightarrow> type_error + jsvalue" where
  "plantInfo result =
     (case species result of
        None \<Rightarrow> Inl TypeError
      | Some sp \<Rightarrow>
          (case image_url result of
             Inl err \<Rightarrow> Inl err
           | Inr medium \<Rightarrow>
               Inr (JObj
                 [(''name'', case commonNames sp of
                               Some (c # _) \<Rightarrow> c
                             | _ \<Rightarrow> scientificNameWithoutAuthor sp),
                  (''scientific_name'', scientificNameWithoutAuthor sp),
                  (''description'', if truthy (description sp) then description sp
                                    else JStr DESCRIPTION_UNAVAILABLE),
                  (''benefits'', JStr BENEFITS_ADVISORY),
                  (''warnings'', JStr WARNINGS_ADVISORY),
                  (''confidence'', score result),
                  (''image_url'', medium)])))"

text \<open>Lines 371 to 409: the answer of the zero-results branch.\<close>

definition mock_response_else :: "uploaded_file \<Rightarrow> response" where
  "mock_response_else file =
     (let mockIndex = file_size file mod length mockPlants_else
      in json (JObj [(''success'', JBool True),
                     (''result'', mockPlants_else ! mockIndex),
                     (''note'', JStr NOTE_else)]))"

text \<open>Lines 428 to 467: the answer of the catch branch.\<close>

definition mock_response_catch :: "uploaded_file \<Rightarrow> response" where
  "mock_response_catch file =
     (let mockIndex = file_size file mod length mockPlants_catch
      in json (JObj [(''success'', JBool True),
                     (''result'', mockPlants_catch ! mockIndex),
                     (''note'', JStr NOTE_catch)]))"

text \<open>Line 343: \<open>response.data && response.data.results && response.data.results.length > 0\<close>,
  giving \<open>response.data.results[0]\<close> when it holds.\<close>

definition first_result :: "payload option \<Rightarrow> match option" where
  "first_result data =
     (case data of
        None \<Rightarrow> None
      | Some p \<Rightarrow> (case results p of Some (r # _) \<Rightarrow> Some r | _ \<Rightarrow> None))"

text \<open>
  The handler. \<open>PLANTNET_API_KEY\<close> is the environment variable, absent or a string;
  \<open>!PLANTNET_API_KEY\<close> holds when it is absent or empty. The \<open>catch\<close> block covers the whole
  \<open>try\<close> block: it answers a rejection of \<open>axios.post\<close> and a \<open>TypeError\<close> thrown while
  the record is built alike. The second component is the list of calls of \<open>axios.post\<close>.
\<close>

definition identify_handler ::
  "string option \<Rightarrow> (upstream_request \<Rightarrow> upstream_outcome) \<Rightarrow> uploaded_file option
     \<Rightarrow> response \<times> upstream_request list" where
  "identify_handler PLANTNET_API_KEY axios_post req_file =
     (case req_file of
        None \<Rightarrow>
          (status_json 400
             (JObj [(''success'', JBool False), (''error'', JStr MSG_IMAGE_NOT_FOUND)]), [])
      | Some file \<Rightarrow>
          (case PLANTNET_API_KEY of
             None \<Rightarrow>
               (status_json 500
                  (JObj [(''success'', JBool False),
                         (''error'', JStr MSG_API_KEY_NOT_CONFIGURED)]), [])
           | Some api_key \<Rightarrow>
               if api_key = [] then
                 (status_json 500
                    (JObj [(''success'', JBool False),
                           (''error'', JStr MSG_API_KEY_NOT_CONFIGURED)]), [])
               else
                 (let request = build_request api_key file in
                  case axios_post request of
                    Rejected err \<Rightarrow> (mock_response_catch file, [request])
                  | Resolved data \<Rightarrow>
                      (case first_result data of
                         Some result \<Rightarrow>
                           (case plantInfo result of
                              Inl err \<Rightarrow> (mock_response_catch file, [request])
                            | Inr info \<Rightarrow>
                                (json (JObj [(''success'', JBool True), (''result'', info)]),
                                 [request]))
                       | None \<Rightarrow> (mock_response_else file, [request])))))"

subsection \<open>The error-handling middleware (lines 538 to 558)\<close>

definition error_middleware :: "js_error \<Rightarrow> response" where
  "error_middleware err =
     (case err of
        MulterError code msg \<Rightarrow>
          if code = ''LIMIT_FILE_SIZE''
          then status_json 400
                 (JObj [(''success'', JBool False), (''error'', JStr MSG_FILE_TOO_LARGE)])
          else status_json 500
                 (JObj [(''success'', JBool False),
                        (''error'', JStr (if msg \<noteq> [] then msg else MSG_INTERNAL_ERROR))])
      | Error msg \<Rightarrow>
          status_json 500
            (JObj [(''success'', JBool False),
                   (''error'', JStr (if msg \<noteq> [] then msg else MSG_INTERNAL_ERROR))]))"

subsection \<open>The route\<close>

text \<open>\<open>app.post('/identify', upload.single('image'), handler)\<close> with the error middleware.\<close>

definition post_identify ::
  "string option \<Rightarrow> (upstream_request \<Rightarrow> upstream_outcome) \<Rightarrow> uploaded_file option
     \<Rightarrow> response \<times> upstream_request list" where
  "post_identify PLANTNET_API_KEY axios_post part =
     (case upload_single part of
        Inl err \<Rightarrow> (error_middleware err, [])
      | Inr req_file \<Rightarrow> identify_handler PLANTNET_API_KEY axios_post req_file)"

subsection \<open>Observations on a response and on an upstream payload\<close>

text \<open>The seven fields of the result record.\<close>

definition result_keys :: "string list" where
  "result_keys = [''name'', ''scientific_name'', ''description'', ''benefits'', ''warnings'',
                  ''confidence'', ''image_url'']"

text \<open>A field of the object under the key \<open>result\<close> of the body.\<close>

definition result_field :: "response \<Rightarrow> string \<Rightarrow> jsvalue option" where
  "result_field r k =
     (case field (body r) ''result'' of Some obj \<Rightarrow> field obj k | None \<Rightarrow> None)"

definition has_all_result_fields :: "response \<Rightarrow> bool" where
  "has_all_result_fields r = list_all (\<lambda>k. result_field r k \<noteq> None) result_keys"

text \<open>A payload with no ranked match: no body, no list of results, or an empty list.\<close>

definition zero_matches :: "payload option \<Rightarrow> bool" where
  "zero_matches data =
     (case data of
        None \<Rightarrow> True
      | Some p \<Rightarrow> (case results p of None \<Rightarrow> True | Some rs \<Rightarrow> rs = []))"

text \<open>The upstream call failed (timeout, network, status outside 2xx) or found nothing.\<close>

definition takes_fallback :: "upstream_outcome \<Rightarrow> bool" where
  "takes_fallback outcome =
     (case outcome of Rejected err \<Rightarrow> True | Resolved data \<Rightarrow> zero_matches data)"

text \<open>The answer that serves the placeholder record chosen by the byte length of the file.\<close>

definition placeholder_response :: "uploaded_file \<Rightarrow> response" where
  "placeholder_response file =
     \<lparr>status = 200,
      body = JObj [(''success'', JBool True),
                   (''result'', mockPlants_else ! (file_size file mod 3)),
                   (''note'', JStr NOTE_else)]\<rparr>"

text \<open>The first image of the match, when the match lists images, has a \<open>url\<close> object.\<close>

definition first_image_has_url :: "match \<Rightarrow> bool" where
  "first_image_has_url m =
     (case images m of Some (i # _) \<Rightarrow> url_m i \<noteq> None | _ \<Rightarrow> True)"

text \<open>
  One of the values that the result record copies from the match is not there: the
  score, the scientific name, the first common name or the medium URL of the first image.
\<close>

definition lacks_copied_value :: "match \<Rightarrow> bool" where
  "lacks_copied_value m =
     (score m = Undefined \<or>
      (case species m of
         None \<Rightarrow> False
       | Some sp \<Rightarrow>
           scientificNameWithoutAuthor sp = Undefined \<or>
           (case commonNames sp of Some (c # _) \<Rightarrow> c = Undefined | _ \<Rightarrow> False)) \<or>
      (case images m of Some (i # _) \<Rightarrow> url_m i = Some Undefined | _ \<Rightarrow> False))"

text \<open>
  The outcome of the upstream call has a first match that the handler can normalise (it
  has a species object, and a \<open>url\<close> object on its first image), yet the match lacks one
  of the copied values.
\<close>

definition drops_a_field :: "upstream_outcome \<Rightarrow> bool" where
  "drops_a_field outcome =
     (case outcome of
        Rejected err \<Rightarrow> False
      | Resolved data \<Rightarrow>
          (case data of
             None \<Rightarrow> False
           | Some p \<Rightarrow>
               (case results p of
                  Some (m # _) \<Rightarrow>
                    species m \<noteq> None \<and> first_image_has_url m \<and> lacks_copied_value m
                | _ \<Rightarrow> False)))"

text \<open>The known image extensions with the media type each stands for.\<close>

definition extension_types :: "(string \<times> string) list" where
  "extension_types =
     [(''jpg'', ''image/jpeg''), (''jpeg'', ''image/jpeg''), (''png'', ''image/png''),
      (''gif'', ''image/gif''), (''bmp'', ''image/bmp''), (''webp'', ''image/webp'')]"

text \<open>
  The local validation failures: no file part, a file of a type the filter rejects, a
  payload that reaches the size limit, or no upstream credential.
\<close>

definition local_validation_failure :: "string option \<Rightarrow> uploaded_file option \<Rightarrow> bool" where
  "local_validation_failure PLANTNET_API_KEY part =
     (case part of
        None \<Rightarrow> True
      | Some file \<Rightarrow>
          (\<not> isImageMime file \<and> \<not> isFlutterImage file) \<or> fileSize \<le> file_size file \<or>
          PLANTNET_API_KEY = None \<or> PLANTNET_API_KEY = Some [])"

subsection \<open>Example requests and upstream behaviours\<close>

definition leaf_jpg :: uploaded_file where
  "leaf_jpg = \<lparr>originalname = ''leaf.jpg'', mimetype = ''image/jpeg'', file_size = 7\<rparr>"

definition scan_png :: uploaded_file where
  "scan_png = \<lparr>originalname = ''scan.png'', mimetype = ''image/png'', file_size = 7\<rparr>"

definition notes_txt :: uploaded_file where
  "notes_txt = \<lparr>originalname = ''notes.txt'', mimetype = ''text/plain'', file_size = 10\<rparr>"

definition flutter_JPG :: uploaded_file where
  "flutter_JPG =
     \<lparr>originalname = ''IMG_0001.JPG'', mimetype = ''application/octet-stream'',
      file_size = 2048\<rparr>"

definition huge_jpg :: uploaded_file where
  "huge_jpg = \<lparr>originalname = ''huge.jpg'', mimetype = ''image/jpeg'', file_size = 10485761\<rparr>"

definition huge_txt :: uploaded_file where
  "huge_txt = \<lparr>originalname = ''huge.txt'', mimetype = ''text/plain'', file_size = 10485761\<rparr>"

definition rosa :: species_info where
  "rosa = \<lparr>scientificNameWithoutAuthor = JStr ''Rosa canina'',
            commonNames = Some [JStr ''Dog rose'', JStr ''Wild briar''],
            description = JStr ''A shrub rose.''\<rparr>"

definition ficus :: species_info where
  "ficus = \<lparr>scientificNameWithoutAuthor = JStr ''Ficus elastica'',
             commonNames = None,
             description = Undefined\<rparr>"

text \<open>A complete match, and a match with only a score and a scientific name.\<close>

definition rose_match :: match where
  "rose_match =
     \<lparr>score = JNum (Finite 0.75), species = Some rosa,
      images = Some [\<lparr>url_m = Some (JStr ''https://img.example/m/1.jpg'')\<rparr>]\<rparr>"

definition bare_match :: match where
  "bare_match = \<lparr>score = JNum (Finite 0.5), species = Some ficus, images = None\<rparr>"

text \<open>A match whose lists are empty and whose description is the empty string.\<close>

definition blank :: species_info where
  "blank = \<lparr>scientificNameWithoutAuthor = JStr ''Ficus elastica'',
             commonNames = Some [],
             description = JStr []\<rparr>"

definition blank_match :: match where
  "blank_match = \<lparr>score = JNum (Finite 0.5), species = Some blank, images = Some []\<rparr>"

text \<open>Matches that lack the species object, the \<open>url\<close> of the first image, or the score,
  and a match whose score overflowed to infinity.\<close>

definition no_species_match :: match where
  "no_species_match = \<lparr>score = JNum (Finite 0.5), species = None, images = None\<rparr>"

definition no_url_match :: match where
  "no_url_match =
     \<lparr>score = JNum (Finite 0.75), species = Some rosa, images = Some [\<lparr>url_m = None\<rparr>]\<rparr>"

definition no_score_match :: match where
  "no_score_match = \<lparr>score = Undefined, species = Some ficus, images = None\<rparr>"

definition infinite_score_match :: match where
  "infinite_score_match = \<lparr>score = JNum PosInfinity, species = Some ficus, images = None\<rparr>"

definition upstream_timeout :: "upstream_request \<Rightarrow> upstream_outcome" where
  "upstream_timeout request = Rejected Timeout"

definition upstream_empty :: "upstream_request \<Rightarrow> upstream_outcome" where
  "upstream_empty request = Resolved (Some \<lparr>results = Some []\<rparr>)"

definition upstream_finds :: "match \<Rightarrow> upstream_request \<Rightarrow> upstream_outcome" where
  "upstream_finds m request = Resolved (Some \<lparr>results = Some [m]\<rparr>)"

section \<open>Properties\<close>

subsection \<open>Strings\<close>

lemma toLowerCase_char_dot: "toLowerCase_char CHR ''.'' = CHR ''.''"
  by (simp add: toLowerCase_char_def)

lemma toLowerCase_append_dot:
  "toLowerCase (stem @ CHR ''.'' # ext) = toLowerCase stem @ CHR ''.'' # toLowerCase ext"
  by (simp add: toLowerCase_def toLowerCase_char_dot)

lemma dot_in_toLowerCase:
  assumes "CHR ''.'' \<in> set s"
  shows "CHR ''.'' \<in> set (toLowerCase s)"
proof -
  from assms have "toLowerCase_char CHR ''.'' \<in> toLowerCase_char ` set s"
    by (rule imageI)
  then show ?thesis
    by (simp add: toLowerCase_def toLowerCase_char_dot)
qed

lemma endsWith_append: "endsWith (a @ b) b"
  by (simp add: endsWith_def)

lemma split_not_Nil: "split sep s \<noteq> []"
  by (induction s) (auto split: list.splits)

lemma split_append_sep:
  assumes "sep \<notin> set e"
  shows "split sep (stem @ sep # e) = split sep stem @ [e]"
proof (induction stem)
  case Nil
  from assms have "split sep e = [e]"
    by (induction e) auto
  then show ?case by simp
next
  case (Cons c stem)
  obtain p ps where "split sep stem = p # ps"
    using split_not_Nil [of sep stem] by (cases "split sep stem") auto
  with Cons show ?case by simp
qed

lemma pop_snoc: "pop (pieces @ [e]) = e"
  by (simp add: pop_def)

subsection \<open>The placeholder tables of the two branches\<close>

lemma mockPlants_same: "mockPlants_catch = mockPlants_else"
  by (simp add: mockPlants_catch_def mockPlants_else_def)

lemma NOTE_same: "NOTE_catch = NOTE_else"
  by (simp add: NOTE_catch_def NOTE_else_def)

lemma length_mockPlants_else: "length mockPlants_else = 3"
  by (simp add: mockPlants_else_def)

subsection \<open>Serialisation\<close>

lemma stringify_Undefined_iff: "stringify v = Undefined \<longleftrightarrow> v = Undefined"
  by (cases v) (auto split: js_number.splits)

lemma map_of_serialised:
  assumes "distinct (map fst kvs)"
  shows "map_of (filter defined_property (map (map_prod id stringify) kvs)) k =
           (case map_of kvs k of
              None \<Rightarrow> None
            | Some v \<Rightarrow> if v = Undefined then None else Some (stringify v))"
proof -
  define ser where
    "ser = (\<lambda>kvs. filter defined_property (map (map_prod id stringify) kvs))"
  have nil: "ser [] = []"
    by (simp add: ser_def)
  have step: "ser ((k', v) # kvs) =
      (if v = Undefined then ser kvs else (k', stringify v) # ser kvs)" for k' v kvs
    by (simp add: ser_def defined_property_def stringify_Undefined_iff)
  have "map_of (ser kvs) k =
      (case map_of kvs k of
         None \<Rightarrow> None
       | Some v \<Rightarrow> if v = Undefined then None else Some (stringify v))"
    using assms
  proof (induction kvs arbitrary: k)
    case Nil
    show ?case by (simp add: nil)
  next
    case (Cons kv kvs)
    obtain k' v where kv: "kv = (k', v)" by (cases kv)
    from Cons.prems kv have d: "distinct (map fst kvs)" and fresh: "map_of kvs k' = None"
      by (simp_all add: map_of_eq_None_iff)
    note ih = Cons.IH [OF d]
    from ih [of k'] fresh have gone: "map_of (ser kvs) k' = None"
      by simp
    from ih [of k] gone show ?case
      by (simp add: kv step)
  qed
  then show ?thesis
    by (simp add: ser_def)
qed

lemma status_json_error:
  "status_json code (JObj [(''success'', JBool False), (''error'', JStr msg)]) =
     \<lparr>status = code, body = JObj [(''success'', JBool False), (''error'', JStr msg)]\<rparr>"
  by (simp add: status_json_def defined_property_def)

lemma result_field_json:
  assumes "distinct (map fst kvs)"
  shows "result_field (json (JObj [(''success'', JBool True), (''result'', JObj kvs)])) k =
           (case map_of kvs k of
              None \<Rightarrow> None
            | Some v \<Rightarrow> if v = Undefined then None else Some (stringify v))"
  using map_of_serialised [OF assms, of k]
  by (simp add: result_field_def json_def status_json_def field_def defined_property_def)

lemma result_object_json:
  "\<exists>obj. field (body (json (JObj [(''success'', JBool True), (''result'', JObj kvs)])))
           ''result'' = Some (JObj obj)"
  by (simp add: json_def status_json_def field_def defined_property_def)

subsection \<open>The placeholder answer\<close>

lemma mock_cases:
  assumes "i < 3"
  shows "i = 0 \<or> i = 1 \<or> i = (2::nat)"
  using assms by arith

lemma stringify_mock:
  assumes "i < 3"
  shows "stringify (mockPlants_else ! i) = mockPlants_else ! i"
  using mock_cases [OF assms]
  by (elim disjE) (simp_all add: mockPlants_else_def defined_property_def)

lemma mock_is_object:
  assumes "i < 3"
  shows "\<exists>obj. mockPlants_else ! i = JObj obj"
  using mock_cases [OF assms]
  by (elim disjE) (simp_all add: mockPlants_else_def)

lemma mock_has_keys:
  assumes "i < 3"
  shows "list_all (\<lambda>k. field (mockPlants_else ! i) k \<noteq> None) result_keys"
  using mock_cases [OF assms]
  by (elim disjE) (simp_all add: mockPlants_else_def result_keys_def field_def)

lemma json_placeholder:
  "json (JObj [(''success'', JBool True),
               (''result'', mockPlants_else ! (file_size f mod 3)),
               (''note'', JStr n)]) =
     \<lparr>status = 200,
      body = JObj [(''success'', JBool True),
                   (''result'', mockPlants_else ! (file_size f mod 3)),
                   (''note'', JStr n)]\<rparr>"
proof -
  have i: "file_size f mod 3 < 3" by simp
  from mock_is_object [OF i] have "mockPlants_else ! (file_size f mod 3) \<noteq> Undefined"
    by auto
  with stringify_mock [OF i] show ?thesis
    by (simp add: json_def status_json_def defined_property_def)
qed

lemma mock_response_else_eq: "mock_response_else f = placeholder_response f"
  by (simp add: mock_response_else_def placeholder_response_def length_mockPlants_else
      json_placeholder)

lemma mock_response_catch_eq: "mock_response_catch f = placeholder_response f"
  by (simp add: mock_response_catch_def placeholder_response_def mockPlants_same NOTE_same
      length_mockPlants_else json_placeholder)

lemma placeholder_status: "status (placeholder_response f) = 200"
  by (simp add: placeholder_response_def)

lemma placeholder_result_object:
  "\<exists>obj. field (body (placeholder_response f)) ''result'' = Some (JObj obj)"
  using mock_is_object [of "file_size f mod 3"]
  by (auto simp: placeholder_response_def field_def)

lemma placeholder_result_field:
  "result_field (placeholder_response f) k = field (mockPlants_else ! (file_size f mod 3)) k"
  by (simp add: result_field_def placeholder_response_def field_def)

lemma placeholder_has_all: "has_all_result_fields (placeholder_response f)"
  using mock_has_keys [of "file_size f mod 3"]
  by (simp add: has_all_result_fields_def placeholder_result_field)

lemma placeholder_fixed_fields:
  "result_field (placeholder_response f) ''description'' \<noteq> None \<and>
   result_field (placeholder_response f) ''benefits'' \<noteq> None \<and>
   result_field (placeholder_response f) ''warnings'' \<noteq> None"
  using placeholder_has_all [of f]
  by (simp add: has_all_result_fields_def result_keys_def)

subsection \<open>The file filter and the upload middleware\<close>

lemma extension_types_cases:
  assumes "map_of extension_types e = Some ty"
  shows "(e = ''jpg'' \<and> ty = ''image/jpeg'') \<or> (e = ''jpeg'' \<and> ty = ''image/jpeg'') \<or>
         (e = ''png'' \<and> ty = ''image/png'') \<or> (e = ''gif'' \<and> ty = ''image/gif'') \<or>
         (e = ''bmp'' \<and> ty = ''image/bmp'') \<or> (e = ''webp'' \<and> ty = ''image/webp'')"
  using assms by (simp add: extension_types_def split: if_splits)

lemma known_extension:
  assumes "map_of extension_types e = Some ty"
  shows "e \<in> set regex_extensions" and "switch_ext e = ty" and "CHR ''.'' \<notin> set e"
    and "ty \<noteq> ''application/octet-stream''"
  using extension_types_cases [OF assms]
  by (auto simp: regex_extensions_def switch_ext_def)

lemma regex_test_known:
  assumes "toLowerCase ext \<in> set regex_extensions"
  shows "regex_test (stem @ CHR ''.'' # ext)"
proof -
  have "endsWith (toLowerCase (stem @ CHR ''.'' # ext)) (CHR ''.'' # toLowerCase ext)"
    using endsWith_append [of "toLowerCase stem" "CHR ''.'' # toLowerCase ext"]
    by (simp add: toLowerCase_append_dot)
  with assms show ?thesis
    unfolding regex_test_def list_ex_iff by blast
qed

lemma infer_known:
  assumes "mimetype file = ''application/octet-stream''"
    and "originalname file = stem @ CHR ''.'' # ext"
    and "map_of extension_types (toLowerCase ext) = Some ty"
  shows "infer_contentType file = ty"
proof -
  have "CHR ''.'' \<notin> set ext"
    using known_extension(3) [OF assms(3)] dot_in_toLowerCase [of ext] by blast
  then have "pop (split CHR ''.'' (originalname file)) = ext"
    by (simp add: assms(2) split_append_sep pop_snoc)
  with assms(1) known_extension(2) [OF assms(3)] show ?thesis
    by (simp add: infer_contentType_def)
qed

lemma upload_single_rejected:
  assumes "\<not> isImageMime file" and "\<not> isFlutterImage file"
  shows "upload_single (Some file) = Inl (Error MSG_ONLY_IMAGES)"
  using assms by (simp add: upload_single_def fileFilter_def)

lemma upload_single_too_large:
  assumes "isImageMime file \<or> isFlutterImage file" and "fileSize < file_size file"
  shows "upload_single (Some file) = Inl (MulterError ''LIMIT_FILE_SIZE'' ''File too large'')"
  using assms by (auto simp: upload_single_def fileFilter_def)

lemma upload_single_admitted:
  assumes "isImageMime file \<or> isFlutterImage file" and "\<not> fileSize < file_size file"
  shows "upload_single (Some file) = Inr (Some file)"
  using assms by (auto simp: upload_single_def fileFilter_def)

lemma MSG_ONLY_IMAGES_nonempty: "MSG_ONLY_IMAGES \<noteq> []"
  by (simp add: MSG_ONLY_IMAGES_def utf8_def)

lemma post_identify_rejected:
  assumes "\<not> isImageMime f" and "\<not> isFlutterImage f"
  shows "post_identify K A (Some f) =
           (\<lparr>status = 500,
             body = JObj [(''success'', JBool False), (''error'', JStr MSG_ONLY_IMAGES)]\<rparr>, [])"
  using assms MSG_ONLY_IMAGES_nonempty
  by (simp add: post_identify_def upload_single_rejected error_middleware_def
      status_json_error)

lemma post_identify_too_large:
  assumes "isImageMime f \<or> isFlutterImage f" and "fileSize < file_size f"
  shows "post_identify K A (Some f) =
           (\<lparr>status = 400,
             body = JObj [(''success'', JBool False), (''error'', JStr MSG_FILE_TOO_LARGE)]\<rparr>,
            [])"
  using assms
  by (simp add: post_identify_def upload_single_too_large error_middleware_def
      status_json_error)

lemma post_identify_admitted:
  assumes "isImageMime f \<or> isFlutterImage f" and "\<not> fileSize < file_size f"
  shows "post_identify K A (Some f) = identify_handler K A (Some f)"
  using assms by (simp add: post_identify_def upload_single_admitted)

lemma handler_no_file:
  "identify_handler K A None =
     (\<lparr>status = 400,
       body = JObj [(''success'', JBool False), (''error'', JStr MSG_IMAGE_NOT_FOUND)]\<rparr>, [])"
  by (simp add: identify_handler_def status_json_error)

lemma post_identify_no_file:
  "post_identify K A None =
     (\<lparr>status = 400,
       body = JObj [(''success'', JBool False), (''error'', JStr MSG_IMAGE_NOT_FOUND)]\<rparr>, [])"
  by (simp add: post_identify_def upload_single_def handler_no_file)

subsection \<open>The branches of the handler\<close>

lemma first_result_None_iff: "first_result data = None \<longleftrightarrow> zero_matches data"
  by (auto simp: first_result_def zero_matches_def split: option.splits list.splits)

lemma first_result_Cons:
  assumes "results p = Some (m # ms)"
  shows "first_result (Some p) = Some m"
  using assms by (simp add: first_result_def)

lemma drops_a_field_Resolved:
  "drops_a_field (Resolved data) =
     (case first_result data of
        None \<Rightarrow> False
      | Some m \<Rightarrow> species m \<noteq> None \<and> first_image_has_url m \<and> lacks_copied_value m)"
  by (simp add: drops_a_field_def first_result_def split: option.splits list.splits)

lemma plantInfo_throws_iff:
  "(\<exists>err. plantInfo m = Inl err) \<longleftrightarrow> species m = None \<or> \<not> first_image_has_url m"
  by (auto simp: plantInfo_def image_url_def first_image_has_url_def
      split: option.splits list.splits sum.splits)

lemma plantInfo_value:
  assumes "species m = Some sp" and "first_image_has_url m"
  shows "plantInfo m =
     Inr (JObj
       [(''name'', case commonNames sp of
                     Some (c # _) \<Rightarrow> c
                   | _ \<Rightarrow> scientificNameWithoutAuthor sp),
        (''scientific_name'', scientificNameWithoutAuthor sp),
        (''description'', if truthy (description sp) then description sp
                          else JStr DESCRIPTION_UNAVAILABLE),
        (''benefits'', JStr BENEFITS_ADVISORY),
        (''warnings'', JStr WARNINGS_ADVISORY),
        (''confidence'', score m),
        (''image_url'', case images m of
                          Some (i # _) \<Rightarrow> (case url_m i of Some v \<Rightarrow> v | None \<Rightarrow> Undefined)
                        | _ \<Rightarrow> JStr [])])"
  using assms
  by (auto simp: plantInfo_def image_url_def first_image_has_url_def
      split: option.splits list.splits)

lemma handler_no_key:
  assumes "K = None \<or> K = Some []"
  shows "identify_handler K A (Some f) =
           (\<lparr>status = 500,
             body = JObj [(''success'', JBool False),
                          (''error'', JStr MSG_API_KEY_NOT_CONFIGURED)]\<rparr>, [])"
  using assms by (auto simp: identify_handler_def status_json_error)

lemma handler_fallback:
  assumes "api_key \<noteq> []" and "takes_fallback (A (build_request api_key f))"
  shows "identify_handler (Some api_key) A (Some f) =
           (placeholder_response f, [build_request api_key f])"
proof (cases "A (build_request api_key f)")
  case (Resolved data)
  with assms(2) have "first_result data = None"
    by (simp add: takes_fallback_def first_result_None_iff)
  with Resolved assms(1) show ?thesis
    by (simp add: identify_handler_def mock_response_else_eq)
next
  case (Rejected err)
  with assms(1) show ?thesis
    by (simp add: identify_handler_def mock_response_catch_eq)
qed

lemma handler_throws:
  assumes "api_key \<noteq> []" and "A (build_request api_key f) = Resolved data"
    and "first_result data = Some m" and "species m = None \<or> \<not> first_image_has_url m"
  shows "identify_handler (Some api_key) A (Some f) =
           (placeholder_response f, [build_request api_key f])"
proof -
  from assms(4) obtain err where "plantInfo m = Inl err"
    using plantInfo_throws_iff [of m] by blast
  with assms(1-3) show ?thesis
    by (simp add: identify_handler_def mock_response_catch_eq)
qed

lemma handler_match:
  assumes "api_key \<noteq> []" and "A (build_request api_key f) = Resolved data"
    and "first_result data = Some m" and "plantInfo m = Inr info"
  shows "identify_handler (Some api_key) A (Some f) =
           (json (JObj [(''success'', JBool True), (''result'', info)]),
            [build_request api_key f])"
  using assms by (simp add: identify_handler_def)

lemma match_response_fields:
  assumes "species m = Some sp" and "first_image_has_url m" and "plantInfo m = Inr info"
  shows "status (json (JObj [(''success'', JBool True), (''result'', info)])) = 200"
    and "\<exists>obj. field (body (json (JObj [(''success'', JBool True), (''result'', info)])))
           ''result'' = Some (JObj obj)"
    and "result_field (json (JObj [(''success'', JBool True), (''result'', info)]))
           ''description'' \<noteq> None"
    and "result_field (json (JObj [(''success'', JBool True), (''result'', info)]))
           ''benefits'' \<noteq> None"
    and "result_field (json (JObj [(''success'', JBool True), (''result'', info)]))
           ''warnings'' \<noteq> None"
    and "has_all_result_fields (json (JObj [(''success'', JBool True), (''result'', info)]))
           \<longleftrightarrow> \<not> lacks_copied_value m"
proof -
  note info = plantInfo_value [OF assms(1,2)]
  from info assms(3) show
    "status (json (JObj [(''success'', JBool True), (''result'', info)])) = 200"
    by (simp add: json_def status_json_def)
  from info assms(3) show
    "\<exists>obj. field (body (json (JObj [(''success'', JBool True), (''result'', info)])))
       ''result'' = Some (JObj obj)"
    using result_object_json by auto
  from info assms(3) show
    "result_field (json (JObj [(''success'', JBool True), (''result'', info)]))
       ''description'' \<noteq> None"
    by (auto simp: result_field_json stringify_Undefined_iff)
  from info assms(3) show
    "result_field (json (JObj [(''success'', JBool True), (''result'', info)]))
       ''benefits'' \<noteq> None"
    by (auto simp: result_field_json)
  from info assms(3) show
    "result_field (json (JObj [(''success'', JBool True), (''result'', info)]))
       ''warnings'' \<noteq> None"
    by (auto simp: result_field_json)
  from info assms(1,2,3) show
    "has_all_result_fields (json (JObj [(''success'', JBool True), (''result'', info)]))
       \<longleftrightarrow> \<not> lacks_copied_value m"
    by (auto simp: has_all_result_fields_def result_keys_def result_field_json
        lacks_copied_value_def first_image_has_url_def
        split: option.splits list.splits)
qed

lemma handler_called:
  assumes "api_key \<noteq> []"
  shows "snd (identify_handler (Some api_key) A (Some f)) = [build_request api_key f] \<and>
         status (fst (identify_handler (Some api_key) A (Some f))) = 200 \<and>
         (\<exists>obj. field (body (fst (identify_handler (Some api_key) A (Some f)))) ''result''
                  = Some (JObj obj)) \<and>
         result_field (fst (identify_handler (Some api_key) A (Some f))) ''description''
           \<noteq> None \<and>
         result_field (fst (identify_handler (Some api_key) A (Some f))) ''benefits''
           \<noteq> None \<and>
         result_field (fst (identify_handler (Some api_key) A (Some f))) ''warnings''
           \<noteq> None \<and>
         (has_all_result_fields (fst (identify_handler (Some api_key) A (Some f)))
            \<longleftrightarrow> \<not> drops_a_field (A (build_request api_key f)))"
proof (cases "takes_fallback (A (build_request api_key f))")
  case True
  have "\<not> drops_a_field (A (build_request api_key f))"
  proof (cases "A (build_request api_key f)")
    case (Resolved data)
    with True have "first_result data = None"
      by (simp add: takes_fallback_def first_result_None_iff)
    with Resolved show ?thesis
      by (simp add: drops_a_field_Resolved)
  next
    case (Rejected err)
    then show ?thesis
      by (simp add: drops_a_field_def)
  qed
  with handler_fallback [of api_key A f, OF assms True] show ?thesis
    using placeholder_result_object [of f] placeholder_fixed_fields [of f]
    by (simp add: placeholder_status placeholder_has_all)
next
  case False
  then obtain data m where out: "A (build_request api_key f) = Resolved data"
    and first: "first_result data = Some m"
    by (cases "A (build_request api_key f)")
      (auto simp: takes_fallback_def first_result_None_iff [symmetric])
  show ?thesis
  proof (cases "species m = None \<or> \<not> first_image_has_url m")
    case True
    then have "\<not> drops_a_field (A (build_request api_key f))"
      by (auto simp: out drops_a_field_Resolved first)
    with handler_throws [of api_key A f, OF assms out first True] show ?thesis
      using placeholder_result_object [of f] placeholder_fixed_fields [of f]
      by (simp add: placeholder_status placeholder_has_all)
  next
    case False
    then obtain sp where sp: "species m = Some sp" and url: "first_image_has_url m"
      by auto
    from plantInfo_value [OF sp url] obtain info where info: "plantInfo m = Inr info"
      by blast
    have drops: "drops_a_field (A (build_request api_key f)) \<longleftrightarrow> lacks_copied_value m"
      by (simp add: out drops_a_field_Resolved first sp url)
    from handler_match [of api_key A f, OF assms out first info] match_response_fields [OF sp url info] drops
    show ?thesis by simp
  qed
qed

lemma handler_match_fields:
  assumes "api_key \<noteq> []" and "A (build_request api_key f) = Resolved (Some p)"
    and "results p = Some (m # ms)" and "species m = Some sp" and "first_image_has_url m"
  shows "status (fst (identify_handler (Some api_key) A (Some f))) = 200"
    and "result_field (fst (identify_handler (Some api_key) A (Some f))) k =
      (case map_of
         [(''name'', case commonNames sp of
                       Some (c # _) \<Rightarrow> c
                     | _ \<Rightarrow> scientificNameWithoutAuthor sp),
          (''scientific_name'', scientificNameWithoutAuthor sp),
          (''description'', if truthy (description sp) then description sp
                            else JStr DESCRIPTION_UNAVAILABLE),
          (''benefits'', JStr BENEFITS_ADVISORY),
          (''warnings'', JStr WARNINGS_ADVISORY),
          (''confidence'', score m),
          (''image_url'', case images m of
                            Some (i # _) \<Rightarrow> (case url_m i of Some v \<Rightarrow> v | None \<Rightarrow> Undefined)
                          | _ \<Rightarrow> JStr [])] k of
         None \<Rightarrow> None
       | Some v \<Rightarrow> if v = Undefined then None else Some (stringify v))"
proof -
  note info = plantInfo_value [OF assms(4,5)]
  note answer = handler_match
    [of api_key A f, OF assms(1,2) first_result_Cons [OF assms(3)] info]
  from answer show "status (fst (identify_handler (Some api_key) A (Some f))) = 200"
    by (simp add: json_def status_json_def)
  have "distinct (map fst
     [(''name'', case commonNames sp of
                   Some (c # _) \<Rightarrow> c
                 | _ \<Rightarrow> scientificNameWithoutAuthor sp),
      (''scientific_name'', scientificNameWithoutAuthor sp),
      (''description'', if truthy (description sp) then description sp
                        else JStr DESCRIPTION_UNAVAILABLE),
      (''benefits'', JStr BENEFITS_ADVISORY),
      (''warnings'', JStr WARNINGS_ADVISORY),
      (''confidence'', score m),
      (''image_url'', case images m of
                        Some (i # _) \<Rightarrow> (case url_m i of Some v \<Rightarrow> v | None \<Rightarrow> Undefined)
                      | _ \<Rightarrow> JStr [])])"
    by simp
  from result_field_json [OF this, of k] answer
  show "result_field (fst (identify_handler (Some api_key) A (Some f))) k =
      (case map_of
         [(''name'', case commonNames sp of
                       Some (c # _) \<Rightarrow> c
                     | _ \<Rightarrow> scientificNameWithoutAuthor sp),
          (''scientific_name'', scientificNameWithoutAuthor sp),
          (''description'', if truthy (description sp) then description sp
                            else JStr DESCRIPTION_UNAVAILABLE),
          (''benefits'', JStr BENEFITS_ADVISORY),
          (''warnings'', JStr WARNINGS_ADVISORY),
          (''confidence'', score m),
          (''image_url'', case images m of
                            Some (i # _) \<Rightarrow> (case url_m i of Some v \<Rightarrow> v | None \<Rightarrow> Undefined)
                          | _ \<Rightarrow> JStr [])] k of
         None \<Rightarrow> None
       | Some v \<Rightarrow> if v = Undefined then None else Some (stringify v))"
    by simp
qed

lemma handler_throws_example:
  assumes "species m = None \<or> \<not> first_image_has_url m"
  shows "fst (identify_handler (Some ''key'') (upstream_finds m) (Some f)) =
           placeholder_response f"
proof -
  have k: "''key'' \<noteq> []" by simp
  have u: "upstream_finds m (build_request ''key'' f)
             = Resolved (Some \<lparr>results = Some [m]\<rparr>)"
    by (simp add: upstream_finds_def)
  have r: "first_result (Some \<lparr>results = Some [m]\<rparr>) = Some m"
    by (simp add: first_result_def)
  from handler_throws [of "''key''" "upstream_finds m" f, OF k u r assms] show ?thesis
    by simp
qed

lemma placeholder_leaf_jpg:
  "result_field (placeholder_response leaf_jpg) ''confidence'' = Some (JNum (Finite 0.88))"
  and "result_field (placeholder_response leaf_jpg) ''scientific_name''
         = Some (JStr ''Rosa canina'')"
  by (simp_all add: placeholder_result_field leaf_jpg_def mockPlants_else_def field_def)

lemma leaf_jpg_admitted:
  "post_identify K A (Some leaf_jpg) = identify_handler K A (Some leaf_jpg)"
proof -
  have "isImageMime leaf_jpg \<or> isFlutterImage leaf_jpg"
    by (simp add: isImageMime_def startsWith_def leaf_jpg_def)
  moreover have "\<not> fileSize < file_size leaf_jpg"
    by (simp add: fileSize_def leaf_jpg_def)
  ultimately show ?thesis
    by (rule post_identify_admitted)
qed

section \<open>The specified behaviour\<close>

text \<open>
  C1. When a file is present and the upstream call times out, fails on the network or with
  a status outside 2xx, or finds no match, the handler answers 200 with \<open>success: true\<close>, a
  \<open>note\<close>, and the placeholder record at index (byte length of the file) mod 3 of the
  three-record table; two uploads of equal byte length on this path get the same record.
\<close>

theorem fallback_serves_placeholder:
  assumes "api_key \<noteq> []" and "takes_fallback (axios_post (build_request api_key file))"
  shows "status (fst (identify_handler (Some api_key) axios_post (Some file))) = 200 \<and>
         field (body (fst (identify_handler (Some api_key) axios_post (Some file)))) ''success''
           = Some (JBool True) \<and>
         field (body (fst (identify_handler (Some api_key) axios_post (Some file)))) ''note''
           = Some (JStr NOTE_else) \<and>
         length mockPlants_else = 3 \<and> mockPlants_catch = mockPlants_else \<and>
         field (body (fst (identify_handler (Some api_key) axios_post (Some file)))) ''result''
           = Some (mockPlants_else ! (file_size file mod 3)) \<and>
         (\<forall>api_key' axios_post' file'.
            api_key' \<noteq> [] \<longrightarrow> takes_fallback (axios_post' (build_request api_key' file')) \<longrightarrow>
            file_size file' = file_size file \<longrightarrow>
            field (body (fst (identify_handler (Some api_key') axios_post' (Some file'))))
              ''result''
              = field (body (fst (identify_handler (Some api_key) axios_post (Some file))))
                  ''result'')"
  using assms
  by (simp add: handler_fallback placeholder_response_def field_def length_mockPlants_else
      mockPlants_same)

theorem fallback_serves_placeholder_witness:
  "takes_fallback (upstream_timeout (build_request ''key'' leaf_jpg)) \<and>
   takes_fallback (upstream_empty (build_request ''other'' scan_png)) \<and>
   status (fst (identify_handler (Some ''key'') upstream_timeout (Some leaf_jpg))) = 200 \<and>
   field (body (fst (identify_handler (Some ''key'') upstream_timeout (Some leaf_jpg)))) ''result''
     = Some (mockPlants_else ! 1) \<and>
   field (body (fst (identify_handler (Some ''other'') upstream_empty (Some scan_png)))) ''result''
     = Some (mockPlants_else ! 1)"
proof -
  have k: "''key'' \<noteq> []" and k': "''other'' \<noteq> []" by simp_all
  have t: "takes_fallback (upstream_timeout (build_request ''key'' leaf_jpg))"
    by (simp add: takes_fallback_def upstream_timeout_def)
  have e: "takes_fallback (upstream_empty (build_request ''other'' scan_png))"
    by (simp add: takes_fallback_def upstream_empty_def zero_matches_def)
  have s: "file_size scan_png = file_size leaf_jpg"
    by (simp add: scan_png_def leaf_jpg_def)
  have m: "file_size leaf_jpg mod 3 = 1"
    by (simp add: leaf_jpg_def)
  note th = fallback_serves_placeholder
    [of "''key''" upstream_timeout leaf_jpg, OF k t]
  from th have a: "status (fst (identify_handler (Some ''key'') upstream_timeout (Some leaf_jpg))) = 200"
    by (rule conjunct1)
  from th m have b: "field (body (fst (identify_handler (Some ''key'') upstream_timeout (Some leaf_jpg))))
      ''result'' = Some (mockPlants_else ! 1)"
    by simp
  from th k' e s have c: "field (body (fst (identify_handler (Some ''other'') upstream_empty (Some scan_png))))
      ''result'' = field (body (fst (identify_handler (Some ''key'') upstream_timeout (Some leaf_jpg))))
      ''result''"
    by blast
  from t e a b c show ?thesis by simp
qed

text \<open>
  C2, as stated: an upload whose content type does not start with \<open>image/\<close> and that is not
  a binary upload with an image extension is answered with status 400. The file filter
  raises a plain \<open>Error\<close>, which the error middleware answers with 500: a text file is a
  counterexample.
\<close>

theorem rejected_type_counterexample:
  "\<not> startsWith (mimetype notes_txt) ''image/'' \<and> \<not> isFlutterImage notes_txt \<and>
   status (fst (post_identify (Some ''key'') upstream_timeout (Some notes_txt))) \<noteq> 400"
  by (simp add: startsWith_def isFlutterImage_def isImageMime_def notes_txt_def
      post_identify_def upload_single_def fileFilter_def error_middleware_def status_json_def)

text \<open>
  C2, amended: such an upload is answered with status 500 and \<open>success: false\<close>, the error
  text being the filter's message, and the upstream service is not called.
\<close>

theorem rejected_type_answers_500:
  assumes "\<not> startsWith (mimetype file) ''image/''" and "\<not> isFlutterImage file"
  shows "status (fst (post_identify PLANTNET_API_KEY axios_post (Some file))) = 500 \<and>
         field (body (fst (post_identify PLANTNET_API_KEY axios_post (Some file)))) ''success''
           = Some (JBool False) \<and>
         field (body (fst (post_identify PLANTNET_API_KEY axios_post (Some file)))) ''error''
           = Some (JStr MSG_ONLY_IMAGES) \<and>
         snd (post_identify PLANTNET_API_KEY axios_post (Some file)) = []"
proof -
  from assms(1) have "\<not> isImageMime file"
    by (simp add: isImageMime_def)
  from post_identify_rejected [OF this assms(2)] show ?thesis
    by (simp add: field_def)
qed

theorem rejected_type_answers_500_witness:
  "\<not> startsWith (mimetype notes_txt) ''image/'' \<and> \<not> isFlutterImage notes_txt \<and>
   status (fst (post_identify (Some ''key'') upstream_timeout (Some notes_txt))) = 500 \<and>
   field (body (fst (post_identify (Some ''key'') upstream_timeout (Some notes_txt)))) ''success''
     = Some (JBool False) \<and>
   snd (post_identify (Some ''key'') upstream_timeout (Some notes_txt)) = []"
proof -
  have a: "\<not> startsWith (mimetype notes_txt) ''image/''"
    by (simp add: startsWith_def notes_txt_def)
  have b: "\<not> isFlutterImage notes_txt"
    by (simp add: isFlutterImage_def notes_txt_def)
  from rejected_type_answers_500 [OF a b] a b show ?thesis by simp
qed

text \<open>
  C3. When a file is present and the credential \<open>PLANTNET_API_KEY\<close> is absent (or empty),
  the handler answers 500 with \<open>success: false\<close> and makes no outbound call.
\<close>

theorem missing_credential_answers_500:
  assumes "PLANTNET_API_KEY = None \<or> PLANTNET_API_KEY = Some []"
  shows "status (fst (identify_handler PLANTNET_API_KEY axios_post (Some file))) = 500 \<and>
         field (body (fst (identify_handler PLANTNET_API_KEY axios_post (Some file)))) ''success''
           = Some (JBool False) \<and>
         snd (identify_handler PLANTNET_API_KEY axios_post (Some file)) = []"
  using handler_no_key [OF assms] by (simp add: field_def)

theorem missing_credential_answers_500_witness:
  "status (fst (identify_handler None (upstream_finds rose_match) (Some leaf_jpg))) = 500 \<and>
   field (body (fst (identify_handler None (upstream_finds rose_match) (Some leaf_jpg))))
     ''success'' = Some (JBool False) \<and>
   snd (identify_handler None (upstream_finds rose_match) (Some leaf_jpg)) = []"
proof -
  have "(None :: string option) = None \<or> (None :: string option) = Some []" by simp
  from missing_credential_answers_500 [OF this] show ?thesis .
qed

text \<open>
  C4, as stated: for every upstream payload with at least one match, the response's
  \<open>scientific_name\<close> and \<open>confidence\<close> are the first match's scientific name and score.
  The source reads \<open>result.species\<close> and \<open>result.images[0].url\<close> without a test inside the
  \<open>try\<close> block: a first match without a species object, or with a first image without
  \<open>url\<close>, throws a \<open>TypeError\<close> and is answered with the placeholder record. A score that
  is not finite is serialised as \<open>null\<close>.
\<close>

theorem match_not_normalised_counterexample:
  "score no_species_match = JNum (Finite 0.5) \<and>
   result_field
     (fst (identify_handler (Some ''key'') (upstream_finds no_species_match) (Some leaf_jpg)))
     ''confidence'' = Some (JNum (Finite 0.88)) \<and>
   result_field
     (fst (identify_handler (Some ''key'') (upstream_finds no_species_match) (Some leaf_jpg)))
     ''confidence'' \<noteq> Some (score no_species_match) \<and>
   result_field
     (fst (identify_handler (Some ''key'') (upstream_finds no_url_match) (Some leaf_jpg)))
     ''confidence'' \<noteq> Some (score no_url_match) \<and>
   result_field
     (fst (identify_handler (Some ''key'') (upstream_finds infinite_score_match)
        (Some leaf_jpg)))
     ''confidence'' \<noteq> Some (score infinite_score_match)"
proof -
  have a: "fst (identify_handler (Some ''key'') (upstream_finds no_species_match)
      (Some leaf_jpg)) = placeholder_response leaf_jpg"
    by (rule handler_throws_example) (simp add: no_species_match_def)
  have b: "fst (identify_handler (Some ''key'') (upstream_finds no_url_match)
      (Some leaf_jpg)) = placeholder_response leaf_jpg"
    by (rule handler_throws_example) (simp add: no_url_match_def first_image_has_url_def)
  have k: "''key'' \<noteq> []" by simp
  have u: "upstream_finds infinite_score_match (build_request ''key'' leaf_jpg)
             = Resolved (Some \<lparr>results = Some [infinite_score_match]\<rparr>)"
    by (simp add: upstream_finds_def)
  have r: "results \<lparr>results = Some [infinite_score_match]\<rparr>
             = Some (infinite_score_match # [])"
    by simp
  have s: "species infinite_score_match = Some ficus"
    by (simp add: infinite_score_match_def)
  have i: "first_image_has_url infinite_score_match"
    by (simp add: first_image_has_url_def infinite_score_match_def)
  from handler_match_fields(2)
    [of "''key''" "upstream_finds infinite_score_match" leaf_jpg, OF k u r s i,
     of "''confidence''"]
  have c: "result_field
      (fst (identify_handler (Some ''key'') (upstream_finds infinite_score_match)
         (Some leaf_jpg)))
      ''confidence'' = Some JNull"
    by (simp add: infinite_score_match_def)
  from a b c placeholder_leaf_jpg(1) show ?thesis
    by (simp add: no_species_match_def no_url_match_def infinite_score_match_def)
qed

text \<open>
  C4, amended: for every upstream payload with at least one match whose first match has
  a species object with a string as scientific name, a finite number as score and, when
  it lists images, a \<open>url\<close> object on the first image, the response has status 200, its
  \<open>scientific_name\<close> is that scientific name exactly and its \<open>confidence\<close> is that score,
  unchanged.
\<close>

theorem match_scientific_name_and_confidence:
  assumes "api_key \<noteq> []"
    and "axios_post (build_request api_key file) = Resolved (Some p)"
    and "results p = Some (m # ms)"
    and "species m = Some sp"
    and "first_image_has_url m"
    and "scientificNameWithoutAuthor sp = JStr name"
    and "score m = JNum (Finite x)"
  shows "status (fst (identify_handler (Some api_key) axios_post (Some file))) = 200 \<and>
         result_field (fst (identify_handler (Some api_key) axios_post (Some file)))
           ''scientific_name'' = Some (JStr name) \<and>
         result_field (fst (identify_handler (Some api_key) axios_post (Some file)))
           ''confidence'' = Some (JNum (Finite x))"
  using handler_match_fields(1) [of api_key axios_post "file", OF assms(1-5)]
    handler_match_fields(2)
      [of api_key axios_post "file", OF assms(1-5), of "''scientific_name''"]
    handler_match_fields(2)
      [of api_key axios_post "file", OF assms(1-5), of "''confidence''"]
  by (simp add: assms(6,7))

theorem match_scientific_name_and_confidence_witness:
  "species rose_match = Some rosa \<and> first_image_has_url rose_match \<and>
   result_field (fst (identify_handler (Some ''key'') (upstream_finds rose_match) (Some leaf_jpg)))
     ''scientific_name'' = Some (JStr ''Rosa canina'') \<and>
   result_field (fst (identify_handler (Some ''key'') (upstream_finds rose_match) (Some leaf_jpg)))
     ''confidence'' = Some (JNum (Finite 0.75))"
proof -
  have k: "''key'' \<noteq> []" by simp
  have u: "upstream_finds rose_match (build_request ''key'' leaf_jpg)
             = Resolved (Some \<lparr>results = Some [rose_match]\<rparr>)"
    by (simp add: upstream_finds_def)
  have r: "results \<lparr>results = Some [rose_match]\<rparr> = Some (rose_match # [])" by simp
  have s: "species rose_match = Some rosa"
    by (simp add: rose_match_def)
  have i: "first_image_has_url rose_match"
    by (simp add: first_image_has_url_def rose_match_def)
  have n: "scientificNameWithoutAuthor rosa = JStr ''Rosa canina''"
    by (simp add: rosa_def)
  have x: "score rose_match = JNum (Finite 0.75)"
    by (simp add: rose_match_def)
  from match_scientific_name_and_confidence
    [of "''key''" "upstream_finds rose_match" leaf_jpg, OF k u r s i n x] s i
  show ?thesis by simp
qed

text \<open>
  C5, as stated: for every upstream payload with at least one match, \<open>name\<close>,
  \<open>description\<close> and \<open>image_url\<close> are taken from the first match, \<open>description\<close> being the
  match's description text when present. The source writes
  \<open>species.description || '...'\<close>, so a description that is present but empty is replaced
  by the fixed text; and a first match whose first image has no \<open>url\<close> throws a
  \<open>TypeError\<close> and is answered with the placeholder record, whose name is not the match's.
\<close>

theorem empty_description_counterexample:
  "species blank_match = Some blank \<and> description blank = JStr [] \<and>
   result_field
     (fst (identify_handler (Some ''key'') (upstream_finds blank_match) (Some leaf_jpg)))
     ''description'' \<noteq> Some (JStr []) \<and>
   commonNames rosa = Some [JStr ''Dog rose'', JStr ''Wild briar''] \<and>
   species no_url_match = Some rosa \<and>
   result_field
     (fst (identify_handler (Some ''key'') (upstream_finds no_url_match) (Some leaf_jpg)))
     ''name'' \<noteq> Some (JStr ''Dog rose'')"
proof -
  have k: "''key'' \<noteq> []" by simp
  have u: "upstream_finds blank_match (build_request ''key'' leaf_jpg)
             = Resolved (Some \<lparr>results = Some [blank_match]\<rparr>)"
    by (simp add: upstream_finds_def)
  have r: "results \<lparr>results = Some [blank_match]\<rparr> = Some (blank_match # [])"
    by simp
  have s: "species blank_match = Some blank"
    by (simp add: blank_match_def)
  have i: "first_image_has_url blank_match"
    by (simp add: first_image_has_url_def blank_match_def)
  from handler_match_fields(2)
    [of "''key''" "upstream_finds blank_match" leaf_jpg, OF k u r s i, of "''description''"]
  have a: "result_field
      (fst (identify_handler (Some ''key'') (upstream_finds blank_match) (Some leaf_jpg)))
      ''description'' = Some (JStr DESCRIPTION_UNAVAILABLE)"
    by (simp add: blank_def)
  have d: "DESCRIPTION_UNAVAILABLE \<noteq> []"
    by (simp add: DESCRIPTION_UNAVAILABLE_def utf8_def)
  have b: "fst (identify_handler (Some ''key'') (upstream_finds no_url_match)
      (Some leaf_jpg)) = placeholder_response leaf_jpg"
    by (rule handler_throws_example) (simp add: no_url_match_def first_image_has_url_def)
  have c: "result_field (placeholder_response leaf_jpg) ''name'' \<noteq> Some (JStr ''Dog rose'')"
    by (simp add: placeholder_result_field leaf_jpg_def mockPlants_else_def field_def utf8_def)
  from a d b c show ?thesis
    by (simp add: blank_match_def blank_def rosa_def no_url_match_def)
qed

text \<open>
  C5, amended: for every upstream payload with at least one match whose first match has
  a species object and, when it lists images, a \<open>url\<close> object on the first image:
  \<open>name\<close> is the first common name (a string) when the list of common names is non-empty
  and the scientific name (a string) otherwise; \<open>description\<close> is the match's description
  text when that is present and not empty, and the fixed text when it is absent or empty;
  \<open>image_url\<close> is the medium-size URL (a string) of the first image when there are images
  and the empty string otherwise.
\<close>

theorem normalized_name_description_image:
  assumes "api_key \<noteq> []"
    and "axios_post (build_request api_key file) = Resolved (Some p)"
    and "results p = Some (m # ms)"
    and "species m = Some sp"
    and "first_image_has_url m"
  shows "(\<forall>c cs. commonNames sp = Some (JStr c # cs) \<longrightarrow>
            result_field (fst (identify_handler (Some api_key) axios_post (Some file))) ''name''
              = Some (JStr c)) \<and>
         (commonNames sp = None \<or> commonNames sp = Some [] \<longrightarrow>
            (\<forall>s. scientificNameWithoutAuthor sp = JStr s \<longrightarrow>
               result_field (fst (identify_handler (Some api_key) axios_post (Some file)))
                 ''name'' = Some (JStr s))) \<and>
         (\<forall>d. description sp = JStr d \<longrightarrow> d \<noteq> [] \<longrightarrow>
            result_field (fst (identify_handler (Some api_key) axios_post (Some file)))
              ''description'' = Some (JStr d)) \<and>
         (description sp = Undefined \<or> description sp = JStr [] \<longrightarrow>
            result_field (fst (identify_handler (Some api_key) axios_post (Some file)))
              ''description'' = Some (JStr DESCRIPTION_UNAVAILABLE)) \<and>
         (\<forall>i is u. images m = Some (i # is) \<longrightarrow> url_m i = Some (JStr u) \<longrightarrow>
            result_field (fst (identify_handler (Some api_key) axios_post (Some file)))
              ''image_url'' = Some (JStr u)) \<and>
         (images m = None \<or> images m = Some [] \<longrightarrow>
            result_field (fst (identify_handler (Some api_key) axios_post (Some file)))
              ''image_url'' = Some (JStr []))"
  using handler_match_fields(2) [of api_key axios_post "file", OF assms, of "''name''"]
    handler_match_fields(2) [of api_key axios_post "file", OF assms, of "''description''"]
    handler_match_fields(2) [of api_key axios_post "file", OF assms, of "''image_url''"]
  by auto

theorem normalized_name_description_image_witness:
  "species rose_match = Some rosa \<and> first_image_has_url rose_match \<and>
   result_field
     (fst (identify_handler (Some ''key'') (upstream_finds rose_match) (Some leaf_jpg))) ''name''
     = Some (JStr ''Dog rose'') \<and>
   result_field
     (fst (identify_handler (Some ''key'') (upstream_finds rose_match) (Some leaf_jpg)))
     ''description'' = Some (JStr ''A shrub rose.'') \<and>
   result_field
     (fst (identify_handler (Some ''key'') (upstream_finds rose_match) (Some leaf_jpg)))
     ''image_url'' = Some (JStr ''https://img.example/m/1.jpg'') \<and>
   result_field
     (fst (identify_handler (Some ''key'') (upstream_finds bare_match) (Some leaf_jpg))) ''name''
     = Some (JStr ''Ficus elastica'') \<and>
   result_field
     (fst (identify_handler (Some ''key'') (upstream_finds bare_match) (Some leaf_jpg)))
     ''description'' = Some (JStr DESCRIPTION_UNAVAILABLE) \<and>
   result_field
     (fst (identify_handler (Some ''key'') (upstream_finds bare_match) (Some leaf_jpg)))
     ''image_url'' = Some (JStr [])"
proof -
  have k: "''key'' \<noteq> []" by simp
  have u: "upstream_finds rose_match (build_request ''key'' leaf_jpg)
             = Resolved (Some \<lparr>results = Some [rose_match]\<rparr>)"
    by (simp add: upstream_finds_def)
  have r: "results \<lparr>results = Some [rose_match]\<rparr> = Some (rose_match # [])" by simp
  have s: "species rose_match = Some rosa"
    by (simp add: rose_match_def)
  have i: "first_image_has_url rose_match"
    by (simp add: first_image_has_url_def rose_match_def)
  have u': "upstream_finds bare_match (build_request ''key'' leaf_jpg)
             = Resolved (Some \<lparr>results = Some [bare_match]\<rparr>)"
    by (simp add: upstream_finds_def)
  have r': "results \<lparr>results = Some [bare_match]\<rparr> = Some (bare_match # [])" by simp
  have s': "species bare_match = Some ficus"
    by (simp add: bare_match_def)
  have i': "first_image_has_url bare_match"
    by (simp add: first_image_has_url_def bare_match_def)
  have rose_values: "commonNames rosa = Some (JStr ''Dog rose'' # [JStr ''Wild briar''])"
    "description rosa = JStr ''A shrub rose.''"
    "images rose_match = Some (\<lparr>url_m = Some (JStr ''https://img.example/m/1.jpg'')\<rparr> # [])"
    "url_m \<lparr>url_m = Some (JStr ''https://img.example/m/1.jpg'')\<rparr>
       = Some (JStr ''https://img.example/m/1.jpg'')"
    by (simp_all add: rosa_def rose_match_def)
  have ficus_values: "commonNames ficus = None"
    "scientificNameWithoutAuthor ficus = JStr ''Ficus elastica''"
    "description ficus = Undefined" "images bare_match = None"
    by (simp_all add: ficus_def bare_match_def)
  from normalized_name_description_image
    [of "''key''" "upstream_finds rose_match" leaf_jpg, OF k u r s i] rose_values
  have rose: "result_field
      (fst (identify_handler (Some ''key'') (upstream_finds rose_match) (Some leaf_jpg))) ''name''
      = Some (JStr ''Dog rose'') \<and>
    result_field
      (fst (identify_handler (Some ''key'') (upstream_finds rose_match) (Some leaf_jpg)))
      ''description'' = Some (JStr ''A shrub rose.'') \<and>
    result_field
      (fst (identify_handler (Some ''key'') (upstream_finds rose_match) (Some leaf_jpg)))
      ''image_url'' = Some (JStr ''https://img.example/m/1.jpg'')"
    by simp
  from normalized_name_description_image
    [of "''key''" "upstream_finds bare_match" leaf_jpg, OF k u' r' s' i'] ficus_values
  have bare: "result_field
      (fst (identify_handler (Some ''key'') (upstream_finds bare_match) (Some leaf_jpg))) ''name''
      = Some (JStr ''Ficus elastica'') \<and>
    result_field
      (fst (identify_handler (Some ''key'') (upstream_finds bare_match) (Some leaf_jpg)))
      ''description'' = Some (JStr DESCRIPTION_UNAVAILABLE) \<and>
    result_field
      (fst (identify_handler (Some ''key'') (upstream_finds bare_match) (Some leaf_jpg)))
      ''image_url'' = Some (JStr [])"
    by simp
  from rose bare s i show ?thesis by simp
qed

text \<open>
  C6. A request with no file part is answered with status 400 and \<open>success: false\<close>, and
  the upstream service is not called.
\<close>

theorem missing_file_answers_400:
  "status (fst (post_identify PLANTNET_API_KEY axios_post None)) = 400 \<and>
   field (body (fst (post_identify PLANTNET_API_KEY axios_post None))) ''success''
     = Some (JBool False) \<and>
   snd (post_identify PLANTNET_API_KEY axios_post None) = []"
  by (simp add: post_identify_no_file field_def)

theorem missing_file_answers_400_witness:
  "status (fst (post_identify None upstream_timeout None)) = 400 \<and>
   field (body (fst (post_identify None upstream_timeout None))) ''success''
     = Some (JBool False) \<and>
   snd (post_identify None upstream_timeout None) = []"
  using missing_file_answers_400 [of None upstream_timeout] .

text \<open>
  C7, as stated: every response with status 200 carries a result record with all seven
  fields. The source copies \<open>result.score\<close> and the other values of the first match without
  a test, and \<open>res.json\<close> leaves out a key whose value is \<open>undefined\<close>: a first match without
  a score is answered with status 200 and a result record of six fields.
\<close>

theorem missing_score_counterexample:
  "score no_score_match = Undefined \<and>
   status (fst (post_identify (Some ''key'') (upstream_finds no_score_match) (Some leaf_jpg)))
     = 200 \<and>
   result_field
     (fst (post_identify (Some ''key'') (upstream_finds no_score_match) (Some leaf_jpg)))
     ''confidence'' = None \<and>
   \<not> has_all_result_fields
       (fst (post_identify (Some ''key'') (upstream_finds no_score_match) (Some leaf_jpg)))"
proof -
  have k: "''key'' \<noteq> []" by simp
  have u: "upstream_finds no_score_match (build_request ''key'' leaf_jpg)
             = Resolved (Some \<lparr>results = Some [no_score_match]\<rparr>)"
    by (simp add: upstream_finds_def)
  have r: "results \<lparr>results = Some [no_score_match]\<rparr> = Some (no_score_match # [])"
    by simp
  have s: "species no_score_match = Some ficus"
    by (simp add: no_score_match_def)
  have i: "first_image_has_url no_score_match"
    by (simp add: first_image_has_url_def no_score_match_def)
  have x: "score no_score_match = Undefined"
    by (simp add: no_score_match_def)
  from handler_match_fields(2)
    [of "''key''" "upstream_finds no_score_match" leaf_jpg, OF k u r s i, of "''confidence''"] x
  have a: "result_field
      (fst (identify_handler (Some ''key'') (upstream_finds no_score_match) (Some leaf_jpg)))
      ''confidence'' = None"
    by simp
  then have b: "\<not> has_all_result_fields
      (fst (identify_handler (Some ''key'') (upstream_finds no_score_match) (Some leaf_jpg)))"
    by (simp add: has_all_result_fields_def result_keys_def)
  from handler_match_fields(1)
    [of "''key''" "upstream_finds no_score_match" leaf_jpg, OF k u r s i] a b x
  show ?thesis
    by (simp add: leaf_jpg_admitted)
qed

text \<open>
  C7, amended: every response with status 200 carries a result record with the fields
  \<open>description\<close>, \<open>benefits\<close> and \<open>warnings\<close>, and with all seven fields except when the
  record is built from a first upstream match that lacks one of the values copied from it
  (the score, the scientific name, the first common name, the medium URL of the first
  image); once the upstream service has been called the status is 200 whatever the call
  gave, and a status other than 200 is 400 or 500, is given before any upstream call, and
  only for a local validation failure.
\<close>

theorem identify_response_invariant:
  "(status (fst (post_identify PLANTNET_API_KEY axios_post part)) = 200 \<longrightarrow>
      (\<exists>obj. field (body (fst (post_identify PLANTNET_API_KEY axios_post part))) ''result''
               = Some (JObj obj)) \<and>
      result_field (fst (post_identify PLANTNET_API_KEY axios_post part)) ''description''
        \<noteq> None \<and>
      result_field (fst (post_identify PLANTNET_API_KEY axios_post part)) ''benefits''
        \<noteq> None \<and>
      result_field (fst (post_identify PLANTNET_API_KEY axios_post part)) ''warnings''
        \<noteq> None) \<and>
   (\<forall>api_key file.
      status (fst (post_identify PLANTNET_API_KEY axios_post part)) = 200 \<longrightarrow>
      PLANTNET_API_KEY = Some api_key \<longrightarrow> part = Some file \<longrightarrow>
      (has_all_result_fields (fst (post_identify PLANTNET_API_KEY axios_post part))
         \<longleftrightarrow> \<not> drops_a_field (axios_post (build_request api_key file)))) \<and>
   (snd (post_identify PLANTNET_API_KEY axios_post part) \<noteq> [] \<longrightarrow>
      status (fst (post_identify PLANTNET_API_KEY axios_post part)) = 200) \<and>
   (status (fst (post_identify PLANTNET_API_KEY axios_post part)) \<noteq> 200 \<longrightarrow>
      (status (fst (post_identify PLANTNET_API_KEY axios_post part)) = 400 \<or>
       status (fst (post_identify PLANTNET_API_KEY axios_post part)) = 500) \<and>
      snd (post_identify PLANTNET_API_KEY axios_post part) = [] \<and>
      local_validation_failure PLANTNET_API_KEY part)"
proof (cases part)
  case None
  then show ?thesis
    by (simp add: post_identify_no_file local_validation_failure_def)
next
  case (Some f)
  show ?thesis
  proof (cases "isImageMime f \<or> isFlutterImage f")
    case False
    then have "\<not> isImageMime f" and "\<not> isFlutterImage f" by simp_all
    from post_identify_rejected [OF this] Some False show ?thesis
      by (simp add: local_validation_failure_def)
  next
    case admitted: True
    show ?thesis
    proof (cases "fileSize < file_size f")
      case True
      from post_identify_too_large [OF admitted True] Some True show ?thesis
        by (simp add: local_validation_failure_def)
    next
      case fits: False
      note route = post_identify_admitted [OF admitted fits]
      show ?thesis
      proof (cases "PLANTNET_API_KEY = None \<or> PLANTNET_API_KEY = Some []")
        case True
        from handler_no_key [OF True] route Some True show ?thesis
          by (simp add: local_validation_failure_def)
      next
        case False
        then obtain api_key where key: "PLANTNET_API_KEY = Some api_key" "api_key \<noteq> []"
          by (cases PLANTNET_API_KEY) auto
        from handler_called [OF key(2), of axios_post f] route Some key(1)
        show ?thesis by simp
      qed
    qed
  qed
qed

theorem identify_response_invariant_witness:
  "status (fst (post_identify (Some ''key'') upstream_timeout (Some leaf_jpg))) = 200 \<and>
   \<not> drops_a_field (upstream_timeout (build_request ''key'' leaf_jpg)) \<and>
   has_all_result_fields (fst (post_identify (Some ''key'') upstream_timeout (Some leaf_jpg))) \<and>
   result_field (fst (post_identify (Some ''key'') upstream_timeout (Some leaf_jpg)))
     ''description'' \<noteq> None \<and>
   snd (post_identify (Some ''key'') upstream_timeout (Some leaf_jpg)) \<noteq> [] \<and>
   status (fst (post_identify None upstream_timeout (Some leaf_jpg))) \<noteq> 200 \<and>
   snd (post_identify None upstream_timeout (Some leaf_jpg)) = [] \<and>
   local_validation_failure None (Some leaf_jpg)"
proof -
  have k: "''key'' \<noteq> []" by simp
  have a: "snd (post_identify (Some ''key'') upstream_timeout (Some leaf_jpg)) \<noteq> []"
    using handler_called [OF k, of upstream_timeout leaf_jpg]
    by (simp add: leaf_jpg_admitted)
  have b: "status (fst (post_identify None upstream_timeout (Some leaf_jpg))) \<noteq> 200"
    using handler_no_key [of None upstream_timeout leaf_jpg]
    by (simp add: leaf_jpg_admitted)
  have n: "\<not> drops_a_field (upstream_timeout (build_request ''key'' leaf_jpg))"
    by (simp add: drops_a_field_def upstream_timeout_def)
  note called = identify_response_invariant [of "Some ''key''" upstream_timeout "Some leaf_jpg"]
  from called a
  have c: "status (fst (post_identify (Some ''key'') upstream_timeout (Some leaf_jpg))) = 200"
    by blast
  from called c
  have d: "result_field (fst (post_identify (Some ''key'') upstream_timeout (Some leaf_jpg)))
      ''description'' \<noteq> None"
    by blast
  from called c n
  have e: "has_all_result_fields
      (fst (post_identify (Some ''key'') upstream_timeout (Some leaf_jpg)))"
    by blast
  from identify_response_invariant [of None upstream_timeout "Some leaf_jpg"] b
  have f: "snd (post_identify None upstream_timeout (Some leaf_jpg)) = [] \<and>
    local_validation_failure None (Some leaf_jpg)"
    by blast
  from a b c d e f n show ?thesis by simp
qed

text \<open>
  C8. An upload declared as \<open>application/octet-stream\<close> whose file name ends in a known
  image extension, in any letter case, is admitted, and the content type of the outbound
  request is the media type of that extension, not the declared binary type.
\<close>

theorem binary_upload_forwarded_as_image:
  assumes "mimetype file = ''application/octet-stream''"
    and "originalname file = stem @ CHR ''.'' # ext"
    and "map_of extension_types (toLowerCase ext) = Some ty"
  shows "fileFilter file = Inr True \<and>
         (file_size file < fileSize \<longrightarrow> upload_single (Some file) = Inr (Some file)) \<and>
         contentType (build_request api_key file) = ty \<and>
         ty \<noteq> mimetype file \<and>
         (file_size file < fileSize \<longrightarrow> api_key \<noteq> [] \<longrightarrow>
            snd (post_identify (Some api_key) axios_post (Some file))
              = [build_request api_key file])"
proof -
  have "regex_test (originalname file)"
    using regex_test_known [OF known_extension(1) [OF assms(3)]] by (simp add: assms(2))
  with assms(1,2) have flutter: "isFlutterImage file"
    by (simp add: isFlutterImage_def)
  then have filter: "fileFilter file = Inr True"
    by (simp add: fileFilter_def)
  have ct: "contentType (build_request api_key file) = ty"
    using infer_known [OF assms] by (simp add: build_request_def)
  have differs: "ty \<noteq> mimetype file"
    using known_extension(4) [OF assms(3)] by (simp add: assms(1))
  have admitted: "upload_single (Some file) = Inr (Some file)" if "file_size file < fileSize"
    using that flutter by (simp add: upload_single_admitted)
  have called: "snd (post_identify (Some api_key) axios_post (Some file))
      = [build_request api_key file]" if "file_size file < fileSize" and "api_key \<noteq> []"
  proof -
    from handler_called [OF that(2), of axios_post "file"]
    have "snd (identify_handler (Some api_key) axios_post (Some file))
        = [build_request api_key file]"
      by simp
    with admitted [OF that(1)] show ?thesis
      by (simp add: post_identify_def)
  qed
  from filter ct differs admitted called show ?thesis by blast
qed

theorem binary_upload_forwarded_as_image_witness:
  "fileFilter flutter_JPG = Inr True \<and>
   upload_single (Some flutter_JPG) = Inr (Some flutter_JPG) \<and>
   contentType (build_request ''key'' flutter_JPG) = ''image/jpeg'' \<and>
   snd (post_identify (Some ''key'') upstream_empty (Some flutter_JPG))
     = [build_request ''key'' flutter_JPG]"
proof -
  have m: "mimetype flutter_JPG = ''application/octet-stream''"
    by (simp add: flutter_JPG_def)
  have n: "originalname flutter_JPG = ''IMG_0001'' @ CHR ''.'' # ''JPG''"
    by (simp add: flutter_JPG_def)
  have e: "map_of extension_types (toLowerCase ''JPG'') = Some ''image/jpeg''"
    by (simp add: extension_types_def toLowerCase_def toLowerCase_char_def)
  have s: "file_size flutter_JPG < fileSize"
    by (simp add: flutter_JPG_def fileSize_def)
  have k: "''key'' \<noteq> []" by simp
  from binary_upload_forwarded_as_image [OF m n e, of "''key''" upstream_empty] s k
  show ?thesis by simp
qed

text \<open>
  C9, as stated: every upload over the size limit is answered with status 400. The file
  filter runs before the payload is read, so an oversized upload of a rejected type gets
  the filter's answer, status 500.
\<close>

theorem oversized_rejected_type_counterexample:
  "fileSize < file_size huge_txt \<and>
   status (fst (post_identify (Some ''key'') upstream_timeout (Some huge_txt))) \<noteq> 400"
  by (simp add: fileSize_def huge_txt_def startsWith_def isFlutterImage_def isImageMime_def
      post_identify_def upload_single_def fileFilter_def error_middleware_def status_json_def)

text \<open>
  C9, amended: every upload of a type the file filter admits whose payload exceeds the
  limit of 10 MiB is answered with status 400 and \<open>success: false\<close>, and the upstream
  service is not called.
\<close>

theorem oversized_admitted_type_answers_400:
  assumes "fileFilter file = Inr True" and "fileSize < file_size file"
  shows "fileSize = 10 * 1024 * 1024 \<and>
         status (fst (post_identify PLANTNET_API_KEY axios_post (Some file))) = 400 \<and>
         field (body (fst (post_identify PLANTNET_API_KEY axios_post (Some file)))) ''success''
           = Some (JBool False) \<and>
         snd (post_identify PLANTNET_API_KEY axios_post (Some file)) = []"
proof -
  from assms(1) have "isImageMime file \<or> isFlutterImage file"
    by (simp add: fileFilter_def split: if_splits)
  from post_identify_too_large [OF this assms(2)] show ?thesis
    by (simp add: field_def fileSize_def)
qed

theorem oversized_admitted_type_answers_400_witness:
  "fileFilter huge_jpg = Inr True \<and> fileSize < file_size huge_jpg \<and>
   status (fst (post_identify (Some ''key'') upstream_timeout (Some huge_jpg))) = 400 \<and>
   field (body (fst (post_identify (Some ''key'') upstream_timeout (Some huge_jpg)))) ''success''
     = Some (JBool False) \<and>
   snd (post_identify (Some ''key'') upstream_timeout (Some huge_jpg)) = []"
proof -
  have a: "fileFilter huge_jpg = Inr True"
    by (simp add: fileFilter_def isImageMime_def startsWith_def huge_jpg_def)
  have b: "fileSize < file_size huge_jpg"
    by (simp add: fileSize_def huge_jpg_def)
  from oversized_admitted_type_answers_400 [OF a b] a b show ?thesis by simp
qed

text \<open>
  C10. A request with no file part is answered with status 400 whether or not the
  credential is configured: the handler tests for the file before it tests for the
  credential, so a request missing both gets the missing-file answer, not status 500.
\<close>

theorem missing_file_checked_before_credential:
  "status (fst (post_identify PLANTNET_API_KEY axios_post None)) = 400 \<and>
   status (fst (identify_handler PLANTNET_API_KEY axios_post None)) = 400 \<and>
   fst (post_identify None axios_post None) = fst (post_identify PLANTNET_API_KEY axios_post None) \<and>
   status (fst (post_identify None axios_post None)) \<noteq> 500 \<and>
   field (body (fst (post_identify None axios_post None))) ''error''
     = Some (JStr MSG_IMAGE_NOT_FOUND)"
  by (simp add: post_identify_no_file handler_no_file field_def)

theorem missing_file_checked_before_credential_witness:
  "status (fst (post_identify None upstream_timeout None)) = 400 \<and>
   status (fst (post_identify (Some ''key'') upstream_timeout None)) = 400"
  using missing_file_checked_before_credential [of None upstream_timeout]
    missing_file_checked_before_credential [of "Some ''key''" upstream_timeout]
  by simp

end
